theory Spec2Isabelle
  imports Complex_Main
begin

section \<open>JavaScript values used by the database service\<close>

text \<open>
  The fields of an extracted manifest that the service coerces (\<open>planned_delivery_date\<close>,
  \<open>est_weight_kg\<close>, \<open>total_cases\<close>) are modelled as primitive JavaScript values.
  Strings are lists of 8-bit characters. A Number is either \<open>NaN\<close>, an infinity or a
  finite value kept as an exact rational: the rounding of a decimal numeral to the
  nearest double is not represented. A Number literal inside a value (\<open>JInt\<close>) is an
  integer, printed by ToString as its decimal numeral.
\<close>

datatype jsnum = NaN | PosInf | NegInf | Fin rat

datatype jsval = JUndefined | JNull | JBool bool | JInt int | JStr string

text \<open>Truthiness, as tested by \<open>if (v)\<close> and \<open>v || d\<close>.\<close>

fun truthy :: "jsval \<Rightarrow> bool" where
  "truthy JUndefined = False"
| "truthy JNull = False"
| "truthy (JBool b) = b"
| "truthy (JInt n) = (n \<noteq> 0)"
| "truthy (JStr s) = (s \<noteq> [])"

definition js_or :: "jsval \<Rightarrow> jsval \<Rightarrow> jsval" where
  "js_or v d = (if truthy v then v else d)"

subsection \<open>Characters and digits\<close>

definition code :: "char \<Rightarrow> nat" where
  "code c = of_char c"

definition is_digit :: "char \<Rightarrow> bool" where
  "is_digit c = (48 \<le> code c \<and> code c \<le> 57)"

definition is_space :: "char \<Rightarrow> bool" where
  "is_space c = (code c \<in> {9, 10, 11, 12, 13, 32, 160})"

text \<open>The value of a character as a digit of the given radix, if it is one.\<close>

definition digit_of :: "nat \<Rightarrow> char \<Rightarrow> nat option" where
  "digit_of radix c =
     (let k = code c;
          v = (if 48 \<le> k \<and> k \<le> 57 then Some (k - 48)
               else if 97 \<le> k \<and> k \<le> 122 then Some (k - 87)
               else if 65 \<le> k \<and> k \<le> 90 then Some (k - 55)
               else None)
      in case v of None \<Rightarrow> None | Some d \<Rightarrow> if d < radix then Some d else None)"

definition is_radix_digit :: "nat \<Rightarrow> char \<Rightarrow> bool" where
  "is_radix_digit radix c = (digit_of radix c \<noteq> None)"

fun digits_value :: "nat \<Rightarrow> nat \<Rightarrow> string \<Rightarrow> nat" where
  "digits_value radix acc [] = acc"
| "digits_value radix acc (c # cs) =
     digits_value radix (acc * radix + (case digit_of radix c of Some d \<Rightarrow> d | None \<Rightarrow> 0)) cs"

fun starts_with :: "string \<Rightarrow> string \<Rightarrow> bool" where
  "starts_with [] s = True"
| "starts_with (p # ps) [] = False"
| "starts_with (p # ps) (c # cs) = (p = c \<and> starts_with ps cs)"

subsection \<open>ToString of the primitive values\<close>

fun nat_digits :: "nat \<Rightarrow> string" where
  "nat_digits n =
     (if n < 10 then [char_of (48 + n)]
      else nat_digits (n div 10) @ [char_of (48 + n mod 10)])"

definition int_to_string :: "int \<Rightarrow> string" where
  "int_to_string i = (if i < 0 then CHR ''-'' # nat_digits (nat (- i)) else nat_digits (nat i))"

fun to_string :: "jsval \<Rightarrow> string" where
  "to_string JUndefined = ''undefined''"
| "to_string JNull = ''null''"
| "to_string (JBool b) = (if b then ''true'' else ''false'')"
| "to_string (JInt n) = int_to_string n"
| "to_string (JStr s) = s"

subsection \<open>Numeric literals in strings\<close>

text \<open>
  \<open>lex_sign\<close> reads an optional sign. \<open>lex_decimal\<close> reads the longest prefix that is
  an unsigned StrDecimalLiteral (\<open>Infinity\<close>, \<open>digits [. digits] [exponent]\<close> or
  \<open>. digits [exponent]\<close>) and returns its value and the unread rest.
\<close>

definition lex_sign :: "string \<Rightarrow> bool \<times> string" where
  "lex_sign s =
     (case s of
        [] \<Rightarrow> (False, s)
      | c # cs \<Rightarrow> if c = CHR ''-'' then (True, cs) else if c = CHR ''+'' then (False, cs) else (False, s))"

definition lex_exponent :: "string \<Rightarrow> int \<times> string" where
  "lex_exponent s =
     (case s of
        [] \<Rightarrow> (0, s)
      | c # cs \<Rightarrow>
          if c = CHR ''e'' \<or> c = CHR ''E'' then
            (let (neg, r) = lex_sign cs; ds = takeWhile is_digit r
             in if ds = [] then (0, s)
                else ((if neg then - int (digits_value 10 0 ds) else int (digits_value 10 0 ds)),
                      dropWhile is_digit r))
          else (0, s))"

definition scale10 :: "nat \<Rightarrow> int \<Rightarrow> rat" where
  "scale10 m e = (if 0 \<le> e then of_nat m * 10 ^ nat e else of_nat m / 10 ^ nat (- e))"

definition lex_decimal :: "string \<Rightarrow> (jsnum \<times> string) option" where
  "lex_decimal s =
     (if starts_with ''Infinity'' s then Some (PosInf, drop 8 s)
      else
        (let ip = takeWhile is_digit s; r1 = dropWhile is_digit s;
             dot = (case r1 of [] \<Rightarrow> False | c # _ \<Rightarrow> c = CHR ''.'');
             fp = (if dot then takeWhile is_digit (tl r1) else []);
             r2 = (if dot then dropWhile is_digit (tl r1) else r1)
         in if ip = [] \<and> fp = [] then None
            else
              (let (e, r3) = lex_exponent r2
               in Some (Fin (scale10 (digits_value 10 0 (ip @ fp)) (e - int (length fp))), r3))))"

definition negate :: "jsnum \<Rightarrow> jsnum" where
  "negate x = (case x of NaN \<Rightarrow> NaN | PosInf \<Rightarrow> NegInf | NegInf \<Rightarrow> PosInf | Fin r \<Rightarrow> Fin (- r))"

text \<open>\<open>parseFloat(string)\<close>: leading white space is skipped, trailing text is ignored.\<close>

definition parseFloat_string :: "string \<Rightarrow> jsnum" where
  "parseFloat_string s =
     (let (neg, r) = lex_sign (dropWhile is_space s)
      in case lex_decimal r of
           None \<Rightarrow> NaN
         | Some (v, _) \<Rightarrow> if neg then negate v else v)"

text \<open>
  \<open>parseInt(string)\<close> with no radix argument: radix 10, or 16 after a \<open>0x\<close> prefix; the
  longest prefix of digits is read, and there being none gives \<open>NaN\<close>.
\<close>

definition parseInt_string :: "string \<Rightarrow> jsnum" where
  "parseInt_string s =
     (let (neg, r) = lex_sign (dropWhile is_space s);
          hex = (starts_with ''0x'' r \<or> starts_with ''0X'' r);
          radix = (if hex then 16 else 10);
          body = (if hex then drop 2 r else r);
          ds = takeWhile (is_radix_digit radix) body
      in if ds = [] then NaN
         else Fin (of_int (if neg then - int (digits_value radix 0 ds) else int (digits_value radix 0 ds))))"

definition parseFloat :: "jsval \<Rightarrow> jsnum" where
  "parseFloat v = parseFloat_string (to_string v)"

definition parseInt :: "jsval \<Rightarrow> jsnum" where
  "parseInt v = parseInt_string (to_string v)"

text \<open>
  ToNumber. On a string: white space is trimmed at both ends, the empty string is 0, and
  the whole rest must be one numeric literal (decimal with optional sign, or unsigned
  hexadecimal, octal or binary).
\<close>

definition trim :: "string \<Rightarrow> string" where
  "trim s = rev (dropWhile is_space (rev (dropWhile is_space s)))"

definition radix_literal :: "nat \<Rightarrow> string \<Rightarrow> jsnum" where
  "radix_literal radix body =
     (if body \<noteq> [] \<and> list_all (is_radix_digit radix) body
      then Fin (of_nat (digits_value radix 0 body)) else NaN)"

definition string_to_number :: "string \<Rightarrow> jsnum" where
  "string_to_number s =
     (let t = trim s
      in if t = [] then Fin 0
         else if starts_with ''0x'' t \<or> starts_with ''0X'' t then radix_literal 16 (drop 2 t)
         else if starts_with ''0o'' t \<or> starts_with ''0O'' t then radix_literal 8 (drop 2 t)
         else if starts_with ''0b'' t \<or> starts_with ''0B'' t then radix_literal 2 (drop 2 t)
         else
           (let (neg, r) = lex_sign t
            in case lex_decimal r of
                 Some (v, []) \<Rightarrow> if neg then negate v else v
               | _ \<Rightarrow> NaN))"

fun to_number :: "jsval \<Rightarrow> jsnum" where
  "to_number JUndefined = NaN"
| "to_number JNull = Fin 0"
| "to_number (JBool b) = (if b then Fin 1 else Fin 0)"
| "to_number (JInt n) = Fin (of_int n)"
| "to_number (JStr s) = string_to_number s"


subsection \<open>Dates\<close>

text \<open>
  A Date object is either invalid (its time value is \<open>NaN\<close>) or a local midnight,
  kept as the number of days since 1 January 1970. \<open>new_Date\<close> is the three-argument
  constructor \<open>new Date(year, month, day)\<close> applied to the arguments after ToNumber:
  a non-finite argument gives an invalid date, years 0 to 99 mean 1900 to 1999, months
  and days outside their range carry over, and a day beyond \<open>10^8\<close> days from the epoch
  is outside the range of time values (the bound is exact up to the local time zone
  offset).
\<close>

datatype jsdate = InvalidDate | DateDay int

definition to_integer :: "rat \<Rightarrow> int" where
  "to_integer r = (if 0 \<le> r then \<lfloor>r\<rfloor> else \<lceil>r\<rceil>)"

text \<open>Day number of the first day of month \<open>m\<close> (0 = January) of year \<open>y\<close>.\<close>

definition day_from_year_month :: "int \<Rightarrow> int \<Rightarrow> int" where
  "day_from_year_month y m =
     (let y' = (if m < 2 then y - 1 else y);
          era = y' div 400;
          yoe = y' - era * 400;
          mp = (m + 10) mod 12;
          doy = (153 * mp + 2) div 5;
          doe = yoe * 365 + yoe div 4 - yoe div 100 + doy
      in era * 146097 + doe - 719468)"

definition new_Date :: "jsnum \<Rightarrow> jsnum \<Rightarrow> jsnum \<Rightarrow> jsdate" where
  "new_Date y m d =
     (case (y, m, d) of
        (Fin yr, Fin mr, Fin dr) \<Rightarrow>
          (let yi = to_integer yr;
               yf = (if 0 \<le> yi \<and> yi \<le> 99 then 1900 + yi else yi);
               mi = to_integer mr;
               di = to_integer dr;
               day = day_from_year_month (yf + mi div 12) (mi mod 12) + di - 1
           in if \<bar>day\<bar> \<le> 100000000 then DateDay day else InvalidDate)
      | _ \<Rightarrow> InvalidDate)"

definition minus_one :: "jsnum \<Rightarrow> jsnum" where
  "minus_one x = (case x of Fin r \<Rightarrow> Fin (r - 1) | other \<Rightarrow> other)"

text \<open>\<open>s.split(sep)\<close> and reading element \<open>i\<close> of the resulting array.\<close>

fun split_on :: "char \<Rightarrow> string \<Rightarrow> string list" where
  "split_on sep [] = [[]]"
| "split_on sep (c # cs) =
     (if c = sep then [] # split_on sep cs
      else (case split_on sep cs of [] \<Rightarrow> [[c]] | p # ps \<Rightarrow> (c # p) # ps))"

definition element :: "string list \<Rightarrow> nat \<Rightarrow> jsval" where
  "element parts i = (if i < length parts then JStr (parts ! i) else JUndefined)"

section \<open>The extracted manifest\<close>

text \<open>
  The object returned by the extractor. A field that may be missing is an option
  (\<open>None\<close> is \<open>undefined\<close>); the three fields that \<open>storeManifest\<close> and
  \<open>storeDelivery\<close> parse are arbitrary primitive values.
\<close>

record time_window =
  tw_start :: "string option"
  tw_end :: "string option"

record delivery =
  contact_name :: "string option"
  address :: "string option"
  postcode :: "string option"
  booking_ref :: "string option"
  arc_number :: "string option"
  contact_phone :: "string option"
  est_weight_kg :: jsval
  total_cases :: jsval
  time_window :: "time_window option"
  delivery_instructions :: "string option"
  delivery_type :: "string option"

record collection_depot =
  depot_name :: "string option"
  depot_postcode :: "string option"

record processing_info =
  filename :: string
  file_size_bytes :: nat
  processed_at :: int
  delivery_count :: nat

record manifest_data =
  manifest_id :: "string option"
  planned_delivery_date :: jsval
  vehicle_driver :: "string option"
  report_time_loading :: "string option"
  collection_depot :: "collection_depot option"
  deliveries :: "delivery list option"
  processing_info :: "processing_info option"
  database_id :: "string option"
  database_error :: "string option"

text \<open>\<open>x || ''\<close>, \<open>x || null\<close> and \<open>if (x) x + ':00'\<close> on an optional string.\<close>

definition or_empty :: "string option \<Rightarrow> string" where
  "or_empty x = (case x of None \<Rightarrow> [] | Some s \<Rightarrow> s)"

definition or_null :: "string option \<Rightarrow> string option" where
  "or_null x = (case x of None \<Rightarrow> None | Some s \<Rightarrow> if s = [] then None else Some s)"

definition add_seconds :: "string option \<Rightarrow> string option" where
  "add_seconds x = (case x of None \<Rightarrow> None | Some s \<Rightarrow> if s = [] then None else Some (s @ '':00''))"

definition deliveries_or_empty :: "manifest_data \<Rightarrow> delivery list" where
  "deliveries_or_empty md = (case deliveries md of None \<Rightarrow> [] | Some ds \<Rightarrow> ds)"

section \<open>The durable store\<close>

text \<open>
  Modelled from the spec: the schema of the database is not in the sources; the columns
  that no INSERT of the service names are taken from the schema given in the spec. The
  surrogate \<open>id\<close> of a manifest and of a batch job, the timestamps \<open>created_at\<close>,
  \<open>processed_at\<close> and \<open>started_at\<close> and the initial progress of a batch job are
  column defaults; ids are compared as text.

  Rows hold the values that the service binds to its INSERT statements, column by
  column, as JavaScript values: whether the database accepts a bound value for the type
  of its column (\<open>NaN\<close> for an integer, an invalid date) is part of the fault oracle
  below, which decides for every statement whether it throws.
\<close>

record manifest_row =
  m_id :: string
  m_manifest_id :: string
  m_planned_delivery_date :: "jsdate option"
  m_vehicle_driver :: string
  m_report_time_loading :: "string option"
  m_collection_depot_name :: string
  m_collection_depot_postcode :: string
  m_original_filename :: string
  m_file_size_bytes :: nat
  m_delivery_count :: nat
  m_raw_manifest_data :: manifest_data
  m_created_at :: int
  m_processed_at :: int

record delivery_row =
  d_manifest_id :: string
  d_contact_name :: string
  d_address :: string
  d_postcode :: string
  d_booking_ref :: string
  d_arc_number :: string
  d_contact_phone :: "string option"
  d_est_weight_kg :: jsnum
  d_total_cases :: jsnum
  d_time_window_start :: "string option"
  d_time_window_end :: "string option"
  d_delivery_instructions :: string
  d_delivery_type :: string
  d_delivery_order :: nat
  d_raw_delivery_data :: delivery

record error_info =
  err_filename :: string
  err_error :: string
  err_timestamp :: int

record batch_job_row =
  bj_id :: string
  bj_job_id :: string
  bj_total_files :: nat
  bj_processed_files :: nat
  bj_successful_files :: nat
  bj_failed_files :: nat
  bj_status :: string
  bj_results :: "manifest_data list"
  bj_errors :: "error_info list"
  bj_error_message :: "string option"
  bj_started_at :: int
  bj_completed_at :: "int option"

record link_row =
  l_batch_job_id :: string
  l_manifest_id :: string
  l_processing_order :: nat

record tables =
  t_manifests :: "manifest_row list"
  t_deliveries :: "delivery_row list"
  t_batch_jobs :: "batch_job_row list"
  t_batch_job_manifests :: "link_row list"

datatype log_level = Info | Warn | Error

text \<open>
  The state of the service and of its environment. \<open>store\<close> is the committed content
  of the database, which every connection sees; \<open>txn\<close> is the working copy of the
  transaction that \<open>storeManifest\<close> has open, if any. \<open>in_use\<close> counts the clients
  checked out of the pool. Every call of the driver (\<open>pool.connect\<close>, \<open>client.query\<close>)
  and of the file system has an index, \<open>calls\<close>; \<open>fault\<close> says which calls throw, and
  with which message, and \<open>genid\<close> which surrogate id the database generates there.
  \<open>now\<close> is the clock and \<open>console\<close> the lines written by \<open>console.log\<close>,
  \<open>console.warn\<close> and \<open>console.error\<close>.
\<close>

record dbsvc =
  store :: tables
  txn :: "tables option"
  in_use :: nat
  calls :: nat
  fault :: "nat \<Rightarrow> string option"
  genid :: "nat \<Rightarrow> string"
  now :: int
  console :: "(log_level \<times> string) list"

definition fails :: "dbsvc \<Rightarrow> string option" where
  "fails w = fault w (calls w)"

definition tick :: "dbsvc \<Rightarrow> dbsvc" where
  "tick w = w\<lparr>calls := Suc (calls w)\<rparr>"

definition log_line :: "log_level \<Rightarrow> string \<Rightarrow> dbsvc \<Rightarrow> dbsvc" where
  "log_line lvl msg w = w\<lparr>console := console w @ [(lvl, msg)]\<rparr>"

definition pool_connect :: "dbsvc \<Rightarrow> (string + unit) \<times> dbsvc" where
  "pool_connect w =
     (case fails w of
        Some e \<Rightarrow> (Inl e, tick w)
      | None \<Rightarrow> (Inr (), (tick w)\<lparr>in_use := Suc (in_use w)\<rparr>))"

definition client_release :: "dbsvc \<Rightarrow> dbsvc" where
  "client_release w = w\<lparr>in_use := in_use w - 1\<rparr>"

text \<open>What the client of the open transaction sees and writes.\<close>

definition view :: "dbsvc \<Rightarrow> tables" where
  "view w = (case txn w of Some t \<Rightarrow> t | None \<Rightarrow> store w)"

definition write_view :: "dbsvc \<Rightarrow> tables \<Rightarrow> dbsvc" where
  "write_view w t = (case txn w of Some _ \<Rightarrow> w\<lparr>txn := Some t\<rparr> | None \<Rightarrow> w\<lparr>store := t\<rparr>)"

definition sql_begin :: "dbsvc \<Rightarrow> (string + unit) \<times> dbsvc" where
  "sql_begin w =
     (case fails w of
        Some e \<Rightarrow> (Inl e, tick w)
      | None \<Rightarrow> (Inr (), (tick w)\<lparr>txn := Some (store w)\<rparr>))"

definition sql_commit :: "dbsvc \<Rightarrow> (string + unit) \<times> dbsvc" where
  "sql_commit w =
     (case fails w of
        Some e \<Rightarrow> (Inl e, tick w)
      | None \<Rightarrow> (Inr (), (tick w)\<lparr>store := view w, txn := None\<rparr>))"

definition sql_rollback :: "dbsvc \<Rightarrow> (string + unit) \<times> dbsvc" where
  "sql_rollback w =
     (case fails w of
        Some e \<Rightarrow> (Inl e, tick w)
      | None \<Rightarrow> (Inr (), (tick w)\<lparr>txn := None\<rparr>))"

subsection \<open>storeManifest and storeDelivery\<close>

text \<open>
  The planned delivery date. A truthy value that is not a string has no \<open>split\<close>
  method: the TypeError is caught, a warning is written and the date stays \<open>null\<close>.
  The second component says whether the warning is written.
\<close>

definition parse_planned_delivery_date :: "jsval \<Rightarrow> jsdate option \<times> bool" where
  "parse_planned_delivery_date v =
     (if truthy v then
        (case v of
           JStr s \<Rightarrow>
             (let parts = split_on CHR ''/'' s;
                  day = element parts 0; month = element parts 1; year = element parts 2
              in (Some (new_Date (to_number year) (minus_one (to_number month)) (to_number day)), False))
         | _ \<Rightarrow> (None, True))
      else (None, False))"

definition manifest_params :: "int \<Rightarrow> manifest_data \<Rightarrow> processing_info \<Rightarrow> string \<Rightarrow> manifest_row" where
  "manifest_params ts manifestData processingInfo new_id =
     (let collectionDepot = (case collection_depot manifestData of
                               None \<Rightarrow> \<lparr>depot_name = None, depot_postcode = None\<rparr>
                             | Some cd \<Rightarrow> cd)
      in \<lparr>m_id = new_id,
          m_manifest_id = or_empty (manifest_id manifestData),
          m_planned_delivery_date = fst (parse_planned_delivery_date (planned_delivery_date manifestData)),
          m_vehicle_driver = or_empty (vehicle_driver manifestData),
          m_report_time_loading = add_seconds (report_time_loading manifestData),
          m_collection_depot_name = or_empty (depot_name collectionDepot),
          m_collection_depot_postcode = or_empty (depot_postcode collectionDepot),
          m_original_filename = filename processingInfo,
          m_file_size_bytes = file_size_bytes processingInfo,
          m_delivery_count = length (deliveries_or_empty manifestData),
          m_raw_manifest_data = manifestData,
          m_created_at = ts,
          m_processed_at = ts\<rparr>)"

text \<open>
  \<open>INSERT INTO manifests ... RETURNING id\<close>: the database generates the id, and the
  primary key refuses one that a visible manifest already has.
\<close>

definition insert_manifest :: "dbsvc \<Rightarrow> manifest_data \<Rightarrow> processing_info \<Rightarrow> (string + string) \<times> dbsvc" where
  "insert_manifest w manifestData processingInfo =
     (case fails w of
        Some e \<Rightarrow> (Inl e, tick w)
      | None \<Rightarrow>
          (let new_id = genid w (calls w); t = view w
           in if new_id \<in> set (map m_id (t_manifests t))
              then (Inl ''duplicate key value violates unique constraint'', tick w)
              else (Inr new_id,
                    write_view (tick w)
                      (t\<lparr>t_manifests := t_manifests t @ [manifest_params (now w) manifestData processingInfo new_id]\<rparr>))))"

definition delivery_params :: "string \<Rightarrow> delivery \<Rightarrow> nat \<Rightarrow> delivery_row" where
  "delivery_params manifestId delivery order =
     (let timeWindow = (case time_window delivery of
                          None \<Rightarrow> \<lparr>tw_start = None, tw_end = None\<rparr>
                        | Some tw \<Rightarrow> tw)
      in \<lparr>d_manifest_id = manifestId,
          d_contact_name = or_empty (contact_name delivery),
          d_address = or_empty (address delivery),
          d_postcode = or_empty (postcode delivery),
          d_booking_ref = or_empty (booking_ref delivery),
          d_arc_number = or_empty (arc_number delivery),
          d_contact_phone = or_null (contact_phone delivery),
          d_est_weight_kg = parseFloat (js_or (est_weight_kg delivery) (JInt 0)),
          d_total_cases = parseInt (js_or (total_cases delivery) (JInt 0)),
          d_time_window_start = add_seconds (tw_start timeWindow),
          d_time_window_end = add_seconds (tw_end timeWindow),
          d_delivery_instructions = or_empty (delivery_instructions delivery),
          d_delivery_type = or_empty (delivery_type delivery),
          d_delivery_order = order,
          d_raw_delivery_data = delivery\<rparr>)"

definition storeDelivery :: "dbsvc \<Rightarrow> string \<Rightarrow> delivery \<Rightarrow> nat \<Rightarrow> (string + unit) \<times> dbsvc" where
  "storeDelivery w manifestId delivery order =
     (case fails w of
        Some e \<Rightarrow> (Inl e, tick w)
      | None \<Rightarrow>
          (Inr (),
           write_view (tick w)
             ((view w)\<lparr>t_deliveries := t_deliveries (view w) @ [delivery_params manifestId delivery order]\<rparr>)))"

text \<open>The loop \<open>for (order = 0; order < deliveries.length; order++)\<close> of \<open>storeManifest\<close>.\<close>

fun store_deliveries :: "dbsvc \<Rightarrow> string \<Rightarrow> delivery list \<Rightarrow> nat \<Rightarrow> (string + unit) \<times> dbsvc" where
  "store_deliveries w manifestId [] order = (Inr (), w)"
| "store_deliveries w manifestId (d # ds) order =
     (case storeDelivery w manifestId d (order + 1) of
        (Inl e, w') \<Rightarrow> (Inl e, w')
      | (Inr _, w') \<Rightarrow> store_deliveries w' manifestId ds (order + 1))"

text \<open>The body of the \<open>try\<close> block of \<open>storeManifest\<close>.\<close>

definition storeManifest_try :: "dbsvc \<Rightarrow> manifest_data \<Rightarrow> processing_info \<Rightarrow> (string + string) \<times> dbsvc" where
  "storeManifest_try w manifestData processingInfo =
     (case sql_begin w of
        (Inl e, w1) \<Rightarrow> (Inl e, w1)
      | (Inr _, w1) \<Rightarrow>
          (let w2 = (if snd (parse_planned_delivery_date (planned_delivery_date manifestData))
                     then log_line Warn ''Could not parse date:'' w1 else w1)
           in case insert_manifest w2 manifestData processingInfo of
                (Inl e, w3) \<Rightarrow> (Inl e, w3)
              | (Inr manifestId, w3) \<Rightarrow>
                  (case store_deliveries w3 manifestId (deliveries_or_empty manifestData) 0 of
                     (Inl e, w4) \<Rightarrow> (Inl e, w4)
                   | (Inr _, w4) \<Rightarrow>
                       (case sql_commit w4 of
                          (Inl e, w5) \<Rightarrow> (Inl e, w5)
                        | (Inr _, w5) \<Rightarrow> (Inr manifestId, log_line Info ''Stored manifest'' w5)))))"

text \<open>
  \<open>storeManifest\<close>: a failing \<open>pool.connect\<close> throws before the \<open>try\<close>; an error in
  the \<open>try\<close> block runs \<open>ROLLBACK\<close> (which may throw in turn) and is thrown again;
  \<open>finally\<close> releases the client.
\<close>

definition storeManifest :: "dbsvc \<Rightarrow> manifest_data \<Rightarrow> processing_info \<Rightarrow> (string + string) \<times> dbsvc" where
  "storeManifest w manifestData processingInfo =
     (case pool_connect w of
        (Inl e, w0) \<Rightarrow> (Inl e, w0)
      | (Inr _, w0) \<Rightarrow>
          (case storeManifest_try w0 manifestData processingInfo of
             (Inr manifestId, w1) \<Rightarrow> (Inr manifestId, client_release w1)
           | (Inl e, w1) \<Rightarrow>
               (case sql_rollback w1 of
                  (Inl e2, w2) \<Rightarrow> (Inl e2, client_release w2)
                | (Inr _, w2) \<Rightarrow> (Inl e, client_release (log_line Error ''Error storing manifest:'' w2)))))"


subsection \<open>Reading a manifest back\<close>

text \<open>A query that only reads: it throws or it does not.\<close>

definition client_query :: "dbsvc \<Rightarrow> (string + unit) \<times> dbsvc" where
  "client_query w = (case fails w of Some e \<Rightarrow> (Inl e, tick w) | None \<Rightarrow> (Inr (), tick w))"

text \<open>\<open>SELECT * FROM deliveries WHERE manifest_id = $1 ORDER BY delivery_order\<close>\<close>

definition select_deliveries :: "tables \<Rightarrow> string \<Rightarrow> delivery_row list" where
  "select_deliveries t manifestId =
     sort_key d_delivery_order (filter (\<lambda>d. d_manifest_id d = manifestId) (t_deliveries t))"

text \<open>
  The two queries shared by \<open>getManifestById\<close> and \<open>getManifestByRef\<close>, given the
  rows of the first one; the client is released on every path (\<open>finally\<close>).
\<close>

definition manifest_with_deliveries ::
  "dbsvc \<Rightarrow> (tables \<Rightarrow> manifest_row list) \<Rightarrow> (string + (manifest_row \<times> delivery_row list) option) \<times> dbsvc" where
  "manifest_with_deliveries w select_rows =
     (case pool_connect w of
        (Inl e, w0) \<Rightarrow> (Inl e, w0)
      | (Inr _, w0) \<Rightarrow>
          (case client_query w0 of
             (Inl e, w1) \<Rightarrow> (Inl e, client_release w1)
           | (Inr _, w1) \<Rightarrow>
               (case select_rows (store w1) of
                  [] \<Rightarrow> (Inr None, client_release w1)
                | manifest # _ \<Rightarrow>
                    (case client_query w1 of
                       (Inl e, w2) \<Rightarrow> (Inl e, client_release w2)
                     | (Inr _, w2) \<Rightarrow>
                         (Inr (Some (manifest, select_deliveries (store w2) (m_id manifest))),
                          client_release w2)))))"

text \<open>\<open>SELECT * FROM manifests WHERE id = $1\<close>\<close>

definition getManifestById :: "dbsvc \<Rightarrow> string \<Rightarrow> (string + (manifest_row \<times> delivery_row list) option) \<times> dbsvc" where
  "getManifestById w manifestId =
     manifest_with_deliveries w (\<lambda>t. filter (\<lambda>m. m_id m = manifestId) (t_manifests t))"

text \<open>\<open>SELECT * FROM manifests WHERE manifest_id = $1 ORDER BY created_at DESC LIMIT 1\<close>\<close>

definition getManifestByRef :: "dbsvc \<Rightarrow> string \<Rightarrow> (string + (manifest_row \<times> delivery_row list) option) \<times> dbsvc" where
  "getManifestByRef w manifestRef =
     manifest_with_deliveries w
       (\<lambda>t. take 1 (sort_key (\<lambda>m. - m_created_at m) (filter (\<lambda>m. m_manifest_id m = manifestRef) (t_manifests t))))"

subsection \<open>The route \<open>GET /manifests/:manifestId\<close>\<close>

datatype response =
    Ok_manifest "manifest_row \<times> delivery_row list"
  | Not_found_404
  | Server_error_500

definition looks_like_uuid :: "string \<Rightarrow> bool" where
  "looks_like_uuid manifestId = (length manifestId = 36 \<and> CHR ''-'' \<in> set manifestId)"

text \<open>
  The rest of the handler after the lookup: an error is caught and answered with 500,
  \<open>null\<close> with 404, a manifest with the manifest.
\<close>

definition respond ::
  "(string + (manifest_row \<times> delivery_row list) option) \<times> dbsvc \<Rightarrow> response \<times> dbsvc" where
  "respond outcome =
     (case outcome of
        (Inl e, w') \<Rightarrow> (Server_error_500, log_line Error ''Error retrieving manifest:'' w')
      | (Inr None, w') \<Rightarrow> (Not_found_404, w')
      | (Inr (Some manifest), w') \<Rightarrow> (Ok_manifest manifest, w'))"

definition get_manifest_route :: "dbsvc \<Rightarrow> string \<Rightarrow> response \<times> dbsvc" where
  "get_manifest_route w manifestId =
     respond (if looks_like_uuid manifestId then getManifestById w manifestId
              else getManifestByRef w manifestId)"

subsection \<open>searchDeliveries\<close>

text \<open>
  The LIKE operator of the database: \<open>%\<close> matches any run of characters, \<open>_\<close> any one
  character, and a backslash makes the next pattern character literal (a pattern that
  ends in a lone backslash matches nothing here; the database rejects it). ILIKE is
  LIKE on the lower-cased pattern and text.
\<close>

fun sql_like :: "string \<Rightarrow> string \<Rightarrow> bool" where
  "sql_like [] s = (s = [])"
| "sql_like (p # ps) s =
     (if p = CHR ''%'' then
        (sql_like ps s \<or> (case s of [] \<Rightarrow> False | _ # t \<Rightarrow> sql_like (p # ps) t))
      else if p = CHR ''_'' then
        (case s of [] \<Rightarrow> False | _ # t \<Rightarrow> sql_like ps t)
      else if p = CHR 0x5C then
        (case ps of
           [] \<Rightarrow> False
         | q # qs \<Rightarrow> (case s of [] \<Rightarrow> False | c # t \<Rightarrow> c = q \<and> sql_like qs t))
      else (case s of [] \<Rightarrow> False | c # t \<Rightarrow> c = p \<and> sql_like ps t))"

definition lower :: "char \<Rightarrow> char" where
  "lower c = (if 65 \<le> code c \<and> code c \<le> 90 then char_of (code c + 32) else c)"

definition sql_ilike :: "string \<Rightarrow> string \<Rightarrow> bool" where
  "sql_ilike p s = sql_like (map lower p) (map lower s)"

record delivery_filters =
  f_postcode :: "string option"
  f_contactName :: "string option"
  f_bookingRef :: "string option"
  f_limit :: "nat option"
  f_offset :: "nat option"

text \<open>\<open>if (filters.x) conditions.push(...)\<close>: a missing or empty filter adds no condition.\<close>

definition condition_if_present :: "string option \<Rightarrow> (string \<Rightarrow> bool) \<Rightarrow> bool" where
  "condition_if_present x cond = (case x of None \<Rightarrow> True | Some s \<Rightarrow> if s = [] then True else cond s)"

text \<open>The condition that a postcode filter adds to the WHERE clause.\<close>

definition postcode_condition :: "string \<Rightarrow> string \<Rightarrow> bool" where
  "postcode_condition filter_postcode row_postcode =
     (if length filter_postcode \<le> 4 then sql_like (filter_postcode @ ''%'') row_postcode
      else row_postcode = filter_postcode)"

definition where_clause :: "delivery_filters \<Rightarrow> delivery_row \<Rightarrow> bool" where
  "where_clause filters d =
     (condition_if_present (f_postcode filters) (\<lambda>p. postcode_condition p (d_postcode d)) \<and>
      condition_if_present (f_contactName filters) (\<lambda>n. sql_ilike (''%'' @ n @ ''%'') (d_contact_name d)) \<and>
      condition_if_present (f_bookingRef filters) (\<lambda>b. d_booking_ref d = b))"

text \<open>
  Modelled from the spec: the view \<open>deliveries_with_manifest\<close> is not in the sources; the
  spec describes it as the deliveries joined with their manifest. The rows are ordered
  by planned delivery date descending (null first, as the database orders descending
  columns) and then by delivery order.
\<close>

definition deliveries_with_manifest :: "tables \<Rightarrow> (delivery_row \<times> manifest_row) list" where
  "deliveries_with_manifest t =
     concat (map (\<lambda>d. map (\<lambda>m. (d, m)) (filter (\<lambda>m. m_id m = d_manifest_id d) (t_manifests t)))
                 (t_deliveries t))"

definition date_desc_key :: "jsdate option \<Rightarrow> int" where
  "date_desc_key x = (case x of Some (DateDay n) \<Rightarrow> - n | _ \<Rightarrow> 0)"

definition null_first_key :: "jsdate option \<Rightarrow> nat" where
  "null_first_key x = (case x of None \<Rightarrow> 0 | Some _ \<Rightarrow> 1)"

definition number_or :: "nat option \<Rightarrow> nat \<Rightarrow> nat" where
  "number_or x d = (case x of None \<Rightarrow> d | Some n \<Rightarrow> if n = 0 then d else n)"

definition select_deliveries_with_manifest :: "tables \<Rightarrow> delivery_filters \<Rightarrow> (delivery_row \<times> manifest_row) list" where
  "select_deliveries_with_manifest t filters =
     take (number_or (f_limit filters) 100)
       (drop (number_or (f_offset filters) 0)
          (sort_key (\<lambda>(d, m). null_first_key (m_planned_delivery_date m))
             (sort_key (\<lambda>(d, m). date_desc_key (m_planned_delivery_date m))
                (sort_key (\<lambda>(d, m). d_delivery_order d)
                   (filter (\<lambda>(d, m). where_clause filters d) (deliveries_with_manifest t))))))"

definition searchDeliveries :: "dbsvc \<Rightarrow> delivery_filters \<Rightarrow> (string + (delivery_row \<times> manifest_row) list) \<times> dbsvc" where
  "searchDeliveries w filters =
     (case pool_connect w of
        (Inl e, w0) \<Rightarrow> (Inl e, w0)
      | (Inr _, w0) \<Rightarrow>
          (case client_query w0 of
             (Inl e, w1) \<Rightarrow> (Inl e, client_release w1)
           | (Inr _, w1) \<Rightarrow> (Inr (select_deliveries_with_manifest (store w1) filters), client_release w1)))"


subsection \<open>Batch jobs in the durable store\<close>

text \<open>
  Modelled from the spec: the column defaults of \<open>batch_jobs\<close> are not in the sources;
  the spec says a job is created with status \<open>processing\<close> and zero progress, and that
  \<open>job_id\<close> is unique.
\<close>

definition new_batch_job_row :: "string \<Rightarrow> string \<Rightarrow> nat \<Rightarrow> int \<Rightarrow> batch_job_row" where
  "new_batch_job_row new_id jobId totalFiles ts =
     \<lparr>bj_id = new_id, bj_job_id = jobId, bj_total_files = totalFiles,
      bj_processed_files = 0, bj_successful_files = 0, bj_failed_files = 0,
      bj_status = ''processing'', bj_results = [], bj_errors = [],
      bj_error_message = None, bj_started_at = ts, bj_completed_at = None\<rparr>"

definition createBatchJob :: "dbsvc \<Rightarrow> string \<Rightarrow> nat \<Rightarrow> (string + string) \<times> dbsvc" where
  "createBatchJob w jobId totalFiles =
     (case pool_connect w of
        (Inl e, w0) \<Rightarrow> (Inl e, w0)
      | (Inr _, w0) \<Rightarrow>
          (case fails w0 of
             Some e \<Rightarrow> (Inl e, client_release (tick w0))
           | None \<Rightarrow>
               (let new_id = genid w0 (calls w0); t = store w0
                in if new_id \<in> set (map bj_id (t_batch_jobs t)) \<or> jobId \<in> set (map bj_job_id (t_batch_jobs t))
                   then (Inl ''duplicate key value violates unique constraint'', client_release (tick w0))
                   else (Inr new_id,
                         client_release
                           ((tick w0)\<lparr>store := t\<lparr>t_batch_jobs := t_batch_jobs t @
                                [new_batch_job_row new_id jobId totalFiles (now w0)]\<rparr>\<rparr>)))))"

record job_updates =
  u_status :: "string option"
  u_processedFiles :: "nat option"
  u_successfulFiles :: "nat option"
  u_failedFiles :: "nat option"
  u_results :: "manifest_data list option"
  u_errors :: "error_info list option"
  u_errorMessage :: "string option"

text \<open>The SET clause that \<open>updateBatchJob\<close> builds, applied to one row.\<close>

definition apply_updates :: "int \<Rightarrow> job_updates \<Rightarrow> batch_job_row \<Rightarrow> batch_job_row" where
  "apply_updates ts updates row =
     (let r1 = (case u_status updates of
                  None \<Rightarrow> row
                | Some st \<Rightarrow>
                    (if st = ''completed'' then row\<lparr>bj_status := st, bj_completed_at := Some ts\<rparr>
                     else row\<lparr>bj_status := st\<rparr>));
          r2 = (case u_processedFiles updates of None \<Rightarrow> r1 | Some n \<Rightarrow> r1\<lparr>bj_processed_files := n\<rparr>);
          r3 = (case u_successfulFiles updates of None \<Rightarrow> r2 | Some n \<Rightarrow> r2\<lparr>bj_successful_files := n\<rparr>);
          r4 = (case u_failedFiles updates of None \<Rightarrow> r3 | Some n \<Rightarrow> r3\<lparr>bj_failed_files := n\<rparr>);
          r5 = (case u_results updates of None \<Rightarrow> r4 | Some rs \<Rightarrow> r4\<lparr>bj_results := rs\<rparr>);
          r6 = (case u_errors updates of None \<Rightarrow> r5 | Some es \<Rightarrow> r5\<lparr>bj_errors := es\<rparr>)
      in case u_errorMessage updates of
           None \<Rightarrow> r6
         | Some m \<Rightarrow> if m = [] then r6 else r6\<lparr>bj_error_message := Some m\<rparr>)"

definition set_clause_empty :: "job_updates \<Rightarrow> bool" where
  "set_clause_empty updates =
     (u_status updates = None \<and> u_processedFiles updates = None \<and> u_successfulFiles updates = None \<and>
      u_failedFiles updates = None \<and> u_results updates = None \<and> u_errors updates = None \<and>
      (u_errorMessage updates = None \<or> u_errorMessage updates = Some []))"

definition updateBatchJob :: "dbsvc \<Rightarrow> string \<Rightarrow> job_updates \<Rightarrow> (string + unit) \<times> dbsvc" where
  "updateBatchJob w jobId updates =
     (case pool_connect w of
        (Inl e, w0) \<Rightarrow> (Inl e, w0)
      | (Inr _, w0) \<Rightarrow>
          (if set_clause_empty updates then (Inr (), client_release w0)
           else
             (case fails w0 of
                Some e \<Rightarrow> (Inl e, client_release (tick w0))
              | None \<Rightarrow>
                  (Inr (),
                   client_release
                     ((tick w0)\<lparr>store := (store w0)\<lparr>t_batch_jobs :=
                          map (\<lambda>row. if bj_job_id row = jobId then apply_updates (now w0) updates row else row)
                              (t_batch_jobs (store w0))\<rparr>\<rparr>)))))"

text \<open>
  \<open>INSERT INTO batch_job_manifests ... SELECT bj.id, $2, $3 FROM batch_jobs bj WHERE
  bj.job_id = $1\<close>: one link per batch job row with this job id.
\<close>

definition linkBatchManifest :: "dbsvc \<Rightarrow> string \<Rightarrow> string \<Rightarrow> nat \<Rightarrow> (string + unit) \<times> dbsvc" where
  "linkBatchManifest w jobId manifestId order =
     (case pool_connect w of
        (Inl e, w0) \<Rightarrow> (Inl e, w0)
      | (Inr _, w0) \<Rightarrow>
          (case fails w0 of
             Some e \<Rightarrow> (Inl e, client_release (tick w0))
           | None \<Rightarrow>
               (Inr (),
                client_release
                  ((tick w0)\<lparr>store := (store w0)\<lparr>t_batch_job_manifests :=
                       t_batch_job_manifests (store w0) @
                       map (\<lambda>bj. \<lparr>l_batch_job_id = bj_id bj, l_manifest_id = manifestId, l_processing_order = order\<rparr>)
                           (filter (\<lambda>bj. bj_job_id bj = jobId) (t_batch_jobs (store w0)))\<rparr>\<rparr>))))"

subsection \<open>getStatistics\<close>

record manifest_stats =
  total_manifests :: nat
  unique_dates :: nat
  unique_drivers :: nat
  total_deliveries :: "nat option"
  avg_deliveries_per_manifest :: "rat option"

record recent_stats =
  recent_manifests :: nat
  last_processed :: "int option"

record batch_stats =
  total_batch_jobs :: nat
  completed_jobs :: nat
  failed_jobs :: nat
  processing_jobs :: nat

record statistics =
  manifests :: manifest_stats
  recent_activity :: recent_stats
  batch_processing :: batch_stats

text \<open>
  The first query: every aggregate is over the rows that pass
  \<open>WHERE planned_delivery_date IS NOT NULL\<close>. SUM and AVG of no rows are null.
\<close>

definition dated_manifests :: "tables \<Rightarrow> manifest_row list" where
  "dated_manifests t = filter (\<lambda>m. m_planned_delivery_date m \<noteq> None) (t_manifests t)"

definition select_manifest_stats :: "tables \<Rightarrow> manifest_stats" where
  "select_manifest_stats t =
     (let rows = dated_manifests t
      in \<lparr>total_manifests = length rows,
          unique_dates = length (remdups (map m_planned_delivery_date rows)),
          unique_drivers = length (remdups (map m_vehicle_driver rows)),
          total_deliveries = (if rows = [] then None else Some (sum_list (map m_delivery_count rows))),
          avg_deliveries_per_manifest =
            (if rows = [] then None
             else Some (of_nat (sum_list (map m_delivery_count rows)) / of_nat (length rows)))\<rparr>)"

text \<open>The second query; the clock counts seconds.\<close>

definition select_recent_stats :: "tables \<Rightarrow> int \<Rightarrow> recent_stats" where
  "select_recent_stats t ts =
     (let rows = filter (\<lambda>m. m_processed_at m > ts - 86400) (t_manifests t)
      in \<lparr>recent_manifests = length rows,
          last_processed = (case map m_processed_at rows of [] \<Rightarrow> None | x # xs \<Rightarrow> Some (fold max xs x))\<rparr>)"

definition select_batch_stats :: "tables \<Rightarrow> batch_stats" where
  "select_batch_stats t =
     \<lparr>total_batch_jobs = length (t_batch_jobs t),
      completed_jobs = length (filter (\<lambda>j. bj_status j = ''completed'') (t_batch_jobs t)),
      failed_jobs = length (filter (\<lambda>j. bj_status j = ''failed'') (t_batch_jobs t)),
      processing_jobs = length (filter (\<lambda>j. bj_status j = ''processing'') (t_batch_jobs t))\<rparr>"

definition getStatistics :: "dbsvc \<Rightarrow> (string + statistics) \<times> dbsvc" where
  "getStatistics w =
     (case pool_connect w of
        (Inl e, w0) \<Rightarrow> (Inl e, w0)
      | (Inr _, w0) \<Rightarrow>
          (case client_query w0 of
             (Inl e, w1) \<Rightarrow> (Inl e, client_release w1)
           | (Inr _, w1) \<Rightarrow>
               (case client_query w1 of
                  (Inl e, w2) \<Rightarrow> (Inl e, client_release w2)
                | (Inr _, w2) \<Rightarrow>
                    (case client_query w2 of
                       (Inl e, w3) \<Rightarrow> (Inl e, client_release w3)
                     | (Inr _, w3) \<Rightarrow>
                         (Inr \<lparr>manifests = select_manifest_stats (store w1),
                               recent_activity = select_recent_stats (store w2) (now w2),
                               batch_processing = select_batch_stats (store w3)\<rparr>,
                          client_release w3)))))"


section \<open>The batch processor\<close>

text \<open>
  An uploaded file, and a job of the in-memory registry \<open>batchJobs\<close> (the \<open>jobStatus\<close>
  object of the route \<open>POST /extract/batch\<close>, with the fields that
  \<open>processBatchInBackground\<close> adds).
\<close>

record upload_file =
  f_path :: string
  originalname :: string
  f_size :: nat

record job =
  status :: string
  total_files :: nat
  processed_files :: nat
  results :: "manifest_data list"
  errors :: "error_info list"
  started_at :: int
  store_in_db :: bool
  completed_at :: "int option"
  job_error :: "string option"
  failed_at :: "int option"

text \<open>
  The server: the database service and its environment, the temporary files on disk
  and the registry of jobs.
\<close>

record server =
  svc :: dbsvc
  disk :: "string set"
  batchJobs :: "string \<rightharpoonup> job"

definition new_job :: "nat \<Rightarrow> bool \<Rightarrow> int \<Rightarrow> job" where
  "new_job n storeInDb ts =
     \<lparr>status = ''processing'', total_files = n, processed_files = 0, results = [], errors = [],
      started_at = ts, store_in_db = storeInDb, completed_at = None, job_error = None,
      failed_at = None\<rparr>"

text \<open>
  The route \<open>POST /extract/batch\<close> up to the start of the background task, for a job id
  drawn by \<open>uuidv4()\<close>: no files is a 400 response and nothing is created (\<open>None\<close>);
  a failure of \<open>createBatchJob\<close> is logged only.
\<close>

definition extract_batch :: "server \<Rightarrow> string \<Rightarrow> upload_file list \<Rightarrow> bool \<Rightarrow> server option" where
  "extract_batch s jobId files storeInDb =
     (if files = [] then None
      else
        (let s1 = s\<lparr>batchJobs := (batchJobs s)(jobId \<mapsto> new_job (length files) storeInDb (now (svc s)))\<rparr>
         in if storeInDb then
              (case createBatchJob (svc s1) jobId (length files) of
                 (Inl e, w) \<Rightarrow> Some (s1\<lparr>svc := log_line Error ''Failed to create batch job in database:'' w\<rparr>)
               | (Inr _, w) \<Rightarrow> Some (s1\<lparr>svc := w\<rparr>))
            else Some s1))"

text \<open>
  The inner \<open>try\<close> of the loop body: \<open>storeManifest\<close>, then \<open>linkBatchManifest\<close>;
  an error of either is caught, logged and written into \<open>database_error\<close>.
\<close>

definition store_and_link ::
  "dbsvc \<Rightarrow> string \<Rightarrow> nat \<Rightarrow> manifest_data \<Rightarrow> processing_info \<Rightarrow> manifest_data \<times> dbsvc" where
  "store_and_link w jobId order extractedData processingInfo =
     (case storeManifest w extractedData processingInfo of
        (Inl e, w1) \<Rightarrow>
          (extractedData\<lparr>database_error := Some e\<rparr>,
           log_line Error ''Failed to store manifest in database:'' w1)
      | (Inr databaseId, w1) \<Rightarrow>
          (case linkBatchManifest w1 jobId databaseId (order + 1) of
             (Inl e, w2) \<Rightarrow>
               (extractedData\<lparr>database_id := Some databaseId, database_error := Some e\<rparr>,
                log_line Error ''Failed to store manifest in database:'' w2)
           | (Inr _, w2) \<Rightarrow>
               (extractedData\<lparr>database_id := Some databaseId\<rparr>,
                log_line Info ''Stored manifest in database'' w2)))"

text \<open>
  The extraction of one file, with the processing metadata attached and the result
  stored when requested. \<open>processPDF\<close> is the extractor, a collaborator of the server:
  it returns the extracted manifest or throws an error with a message.
\<close>

definition processing_metadata :: "int \<Rightarrow> upload_file \<Rightarrow> manifest_data \<Rightarrow> processing_info" where
  "processing_metadata ts file extracted =
     \<lparr>filename = originalname file, file_size_bytes = f_size file, processed_at = ts,
      delivery_count = length (deliveries_or_empty extracted)\<rparr>"

definition extract_and_store ::
  "(string \<Rightarrow> string + manifest_data) \<Rightarrow> dbsvc \<Rightarrow> string \<Rightarrow> bool \<Rightarrow> nat \<Rightarrow> upload_file \<Rightarrow>
     (string + manifest_data) \<times> dbsvc" where
  "extract_and_store processPDF w jobId storeInDb order file =
     (case processPDF (f_path file) of
        Inl message \<Rightarrow> (Inl message, w)
      | Inr extracted \<Rightarrow>
          (let processingInfo = processing_metadata (now w) file extracted;
               extractedData = extracted\<lparr>processing_info := Some processingInfo\<rparr>
           in if storeInDb then
                (case store_and_link w jobId order extractedData processingInfo of
                   (x, w') \<Rightarrow> (Inr x, w'))
              else (Inr extractedData, w)))"

text \<open>\<open>fs.unlink(file.path)\<close> in its own \<open>try\<close>: a failure is a warning.\<close>

definition unlink_file :: "upload_file \<Rightarrow> server \<Rightarrow> server" where
  "unlink_file file s =
     (case fails (svc s) of
        Some e \<Rightarrow> s\<lparr>svc := log_line Warn ''Failed to clean up'' (tick (svc s))\<rparr>
      | None \<Rightarrow>
          (if f_path file \<in> disk s then s\<lparr>svc := tick (svc s), disk := disk s - {f_path file}\<rparr>
           else s\<lparr>svc := log_line Warn ''Failed to clean up'' (tick (svc s))\<rparr>))"

text \<open>
  The state of the loop of \<open>processBatchInBackground\<close>: the job object, the two local
  counters and the server. The job object is the one in the registry, so the registry
  shows every change of it.
\<close>

record batch_state =
  bs_job :: job
  successfulFiles :: nat
  failedFiles :: nat
  bs_server :: server

definition publish :: "string \<Rightarrow> batch_state \<Rightarrow> batch_state" where
  "publish jobId st =
     st\<lparr>bs_server := (bs_server st)\<lparr>batchJobs := (batchJobs (bs_server st))(jobId \<mapsto> bs_job st)\<rparr>\<rparr>"

text \<open>One turn of the loop, for the file at index \<open>order\<close>.\<close>

definition process_file ::
  "(string \<Rightarrow> string + manifest_data) \<Rightarrow> string \<Rightarrow> bool \<Rightarrow> nat \<Rightarrow> upload_file \<Rightarrow> batch_state \<Rightarrow> batch_state" where
  "process_file processPDF jobId storeInDb order file st =
     (let s = bs_server st;
          st1 = (case extract_and_store processPDF (svc s) jobId storeInDb order file of
                   (Inr extractedData, w) \<Rightarrow>
                     st\<lparr>bs_job := (bs_job st)\<lparr>results := results (bs_job st) @ [extractedData]\<rparr>,
                        successfulFiles := successfulFiles st + 1,
                        bs_server := s\<lparr>svc := w\<rparr>\<rparr>
                 | (Inl message, w) \<Rightarrow>
                     st\<lparr>bs_job := (bs_job st)\<lparr>errors := errors (bs_job st) @
                                      [\<lparr>err_filename = originalname file, err_error = message,
                                        err_timestamp = now w\<rparr>]\<rparr>,
                        failedFiles := failedFiles st + 1,
                        bs_server := s\<lparr>svc := log_line Error ''Error processing'' w\<rparr>\<rparr>);
          st2 = st1\<lparr>bs_server := unlink_file file (bs_server st1)\<rparr>
      in publish jobId (st2\<lparr>bs_job := (bs_job st2)\<lparr>processed_files := processed_files (bs_job st2) + 1\<rparr>\<rparr>))"

fun process_files ::
  "(string \<Rightarrow> string + manifest_data) \<Rightarrow> string \<Rightarrow> bool \<Rightarrow> nat \<Rightarrow> upload_file list \<Rightarrow> batch_state \<Rightarrow> batch_state" where
  "process_files processPDF jobId storeInDb order [] st = st"
| "process_files processPDF jobId storeInDb order (file # rest) st =
     process_files processPDF jobId storeInDb (order + 1) rest
       (process_file processPDF jobId storeInDb order file st)"

text \<open>After the loop: the job is completed, and the durable job is updated once.\<close>

definition completed_updates :: "nat \<Rightarrow> batch_state \<Rightarrow> job_updates" where
  "completed_updates n st =
     \<lparr>u_status = Some ''completed'', u_processedFiles = Some n,
      u_successfulFiles = Some (successfulFiles st), u_failedFiles = Some (failedFiles st),
      u_results = Some (results (bs_job st)), u_errors = Some (errors (bs_job st)),
      u_errorMessage = None\<rparr>"

definition finish_batch :: "string \<Rightarrow> nat \<Rightarrow> bool \<Rightarrow> batch_state \<Rightarrow> batch_state" where
  "finish_batch jobId n storeInDb st =
     (let s = bs_server st;
          st1 = publish jobId
                  (st\<lparr>bs_job := (bs_job st)\<lparr>status := ''completed'', completed_at := Some (now (svc s))\<rparr>\<rparr>);
          w1 = (if storeInDb then
                  (case updateBatchJob (svc s) jobId (completed_updates n st1) of
                     (Inl e, w) \<Rightarrow> log_line Error ''Failed to update batch job in database:'' w
                   | (Inr _, w) \<Rightarrow> w)
                else svc s)
      in st1\<lparr>bs_server := (bs_server st1)\<lparr>svc := log_line Info ''Batch job completed'' w1\<rparr>\<rparr>)"

text \<open>
  \<open>processBatchInBackground\<close>. With the job in the registry no statement outside the
  inner \<open>try\<close> blocks can throw, so the outer \<open>catch\<close> is not entered. Without it,
  \<open>job\<close> is \<open>undefined\<close>: the first use of it throws a TypeError, in the loop from the
  \<open>catch\<close> of the first file (after its extraction and storing) and otherwise after
  the loop, and the outer \<open>catch\<close> throws again on \<open>job.status\<close>, so the task is
  rejected.
\<close>

definition processBatchInBackground ::
  "(string \<Rightarrow> string + manifest_data) \<Rightarrow> server \<Rightarrow> string \<Rightarrow> upload_file list \<Rightarrow> bool \<Rightarrow>
     (string + unit) \<times> server" where
  "processBatchInBackground processPDF s jobId files storeInDb =
     (case batchJobs s jobId of
        None \<Rightarrow>
          (case files of
             [] \<Rightarrow> (Inl ''TypeError'', s)
           | file # _ \<Rightarrow>
               (case extract_and_store processPDF (svc s) jobId storeInDb 0 file of
                  (_, w) \<Rightarrow> (Inl ''TypeError'', s\<lparr>svc := w\<rparr>)))
      | Some job \<Rightarrow>
          (Inr (),
           bs_server
             (finish_batch jobId (length files) storeInDb
                (process_files processPDF jobId storeInDb 0 files
                   \<lparr>bs_job = job, successfulFiles = 0, failedFiles = 0, bs_server = s\<rparr>))))"

section \<open>Notions used in the statements\<close>

text \<open>The delivery rows that the loop of \<open>storeManifest\<close> inserts, from index \<open>order\<close> on.\<close>

fun delivery_rows :: "string \<Rightarrow> delivery list \<Rightarrow> nat \<Rightarrow> delivery_row list" where
  "delivery_rows manifestId [] order = []"
| "delivery_rows manifestId (d # ds) order =
     delivery_params manifestId d (order + 1) # delivery_rows manifestId ds (order + 1)"

text \<open>The foreign key of \<open>deliveries\<close>: every delivery row belongs to a manifest row.\<close>

definition fk_ok :: "tables \<Rightarrow> bool" where
  "fk_ok t = list_all (\<lambda>d. d_manifest_id d \<in> set (map m_id (t_manifests t))) (t_deliveries t)"

text \<open>The environment has the same oracles and clock, and as many clients checked out.\<close>

definition same_env :: "dbsvc \<Rightarrow> dbsvc \<Rightarrow> bool" where
  "same_env w w' = (fault w' = fault w \<and> genid w' = genid w \<and> now w' = now w \<and> in_use w' = in_use w)"

text \<open>A string without the characters that LIKE reads as operators.\<close>

definition like_plain :: "string \<Rightarrow> bool" where
  "like_plain p = list_all (\<lambda>c. c \<noteq> CHR ''%'' \<and> c \<noteq> CHR ''_'' \<and> c \<noteq> CHR 0x5C) p"

section \<open>Example inputs\<close>

text \<open>
  An empty database whose driver fails at the call with index \<open>k\<close>, if any, and a
  manifest with two deliveries.
\<close>

definition empty_tables :: tables where
  "empty_tables = \<lparr>t_manifests = [], t_deliveries = [], t_batch_jobs = [], t_batch_job_manifests = []\<rparr>"

definition example_uuid :: "nat \<Rightarrow> string" where
  "example_uuid i = ''00000000-0000-4000-8000-'' @ replicate (12 - length (nat_digits i)) CHR ''0'' @ nat_digits i"

definition example_env :: "nat option \<Rightarrow> dbsvc" where
  "example_env k =
     \<lparr>store = empty_tables, txn = None, in_use = 0, calls = 0,
      fault = (\<lambda>i. if Some i = k then Some ''connection lost'' else None),
      genid = example_uuid, now = 1700000000, console = []\<rparr>"

definition example_delivery :: "string \<Rightarrow> jsval \<Rightarrow> jsval \<Rightarrow> delivery" where
  "example_delivery pc weight cases =
     \<lparr>contact_name = Some ''A Smith'', address = Some ''1 High Street'', postcode = Some pc,
      booking_ref = Some ''BK1'', arc_number = Some ''ARC1'', contact_phone = None,
      est_weight_kg = weight, total_cases = cases,
      time_window = Some \<lparr>tw_start = Some ''09:00'', tw_end = Some ''11:00''\<rparr>,
      delivery_instructions = None, delivery_type = Some ''pallet''\<rparr>"

definition example_manifest :: "jsval \<Rightarrow> delivery list \<Rightarrow> manifest_data" where
  "example_manifest date ds =
     \<lparr>manifest_id = Some ''M1001'', planned_delivery_date = date, vehicle_driver = Some ''J Doe'',
      report_time_loading = Some ''06:30'',
      collection_depot = Some \<lparr>depot_name = Some ''North'', depot_postcode = Some ''N1 9GU''\<rparr>,
      deliveries = Some ds, processing_info = None, database_id = None, database_error = None\<rparr>"

definition example_info :: processing_info where
  "example_info = \<lparr>filename = ''m1001.pdf'', file_size_bytes = 2048, processed_at = 1700000000, delivery_count = 2\<rparr>"

definition two_deliveries :: "delivery list" where
  "two_deliveries = [example_delivery ''SW1A 1AA'' (JStr ''12.5'') (JInt 3),
                     example_delivery ''SW2 1AA'' JUndefined (JStr '''')]"


text \<open>Two stored manifests with the same reference, created at times 10 and 20.\<close>

definition example_two_manifests :: dbsvc where
  "example_two_manifests =
     (example_env None)\<lparr>store := empty_tables\<lparr>t_manifests :=
        [manifest_params 10 (example_manifest JNull []) example_info (example_uuid 1),
         manifest_params 20 (example_manifest JNull []) example_info (example_uuid 2)]\<rparr>\<rparr>"

text \<open>One stored manifest with the two example deliveries.\<close>

definition example_stored :: dbsvc where
  "example_stored =
     (example_env None)\<lparr>store := empty_tables\<lparr>
        t_manifests := [manifest_params 10 (example_manifest (JStr ''15/01/2024'') two_deliveries)
                          example_info (example_uuid 1)],
        t_deliveries := delivery_rows (example_uuid 1) two_deliveries 0\<rparr>\<rparr>"

definition postcode_filter :: "string \<Rightarrow> delivery_filters" where
  "postcode_filter p =
     \<lparr>f_postcode = Some p, f_contactName = None, f_bookingRef = None, f_limit = None, f_offset = None\<rparr>"

text \<open>
  A server with two uploaded files, the second of which the extractor rejects, and the
  state of the loop at the start of the background task of the job \<open>job-1\<close>, after
  the route has registered it in memory and in the database.
\<close>

definition example_file :: "string \<Rightarrow> upload_file" where
  "example_file n = \<lparr>f_path = ''uploads/'' @ n, originalname = n @ ''.pdf'', f_size = 2048\<rparr>"

definition example_extractor :: "string \<Rightarrow> string + manifest_data" where
  "example_extractor p =
     (if p = ''uploads/b'' then Inl ''not a manifest''
      else Inr (example_manifest (JStr ''15/01/2024'') two_deliveries))"

definition example_server :: "nat option \<Rightarrow> server" where
  "example_server k =
     \<lparr>svc = example_env k, disk = {''uploads/a'', ''uploads/b'', ''uploads/c''}, batchJobs = Map.empty\<rparr>"

definition example_submitted :: "nat option \<Rightarrow> upload_file list \<Rightarrow> server" where
  "example_submitted k files =
     (case extract_batch (example_server k) ''job-1'' files True of
        None \<Rightarrow> example_server k
      | Some s \<Rightarrow> s)"

definition start_of_loop :: "server \<Rightarrow> nat \<Rightarrow> batch_state" where
  "start_of_loop s n =
     \<lparr>bs_job = new_job n True (now (svc s)), successfulFiles = 0, failedFiles = 0, bs_server = s\<rparr>"

section \<open>Properties of the manifest store\<close>

subsection \<open>The effect of storeManifest\<close>

text \<open>The rows of the deliveries: their manifest, order indices and payloads.\<close>

lemma delivery_rows_manifest_id: "d \<in> set (delivery_rows mid ds k) \<Longrightarrow> d_manifest_id d = mid"
  by (induction ds arbitrary: k) (auto simp: delivery_params_def Let_def)

lemma delivery_rows_order: "map d_delivery_order (delivery_rows mid ds k) = [Suc k ..< Suc k + length ds]"
proof (induction ds arbitrary: k)
  case Nil
  then show ?case by simp
next
  case (Cons d ds)
  have "[Suc k ..< Suc k + length (d # ds)] = Suc k # [Suc (Suc k) ..< Suc (Suc k) + length ds]"
    by (simp add: upt_conv_Cons del: upt_Suc)
  with Cons show ?case by (simp add: delivery_params_def Let_def del: upt_Suc)
qed

lemma delivery_rows_raw: "map d_raw_delivery_data (delivery_rows mid ds k) = ds"
  by (induction ds arbitrary: k) (auto simp: delivery_params_def Let_def)

lemma delivery_rows_length: "length (delivery_rows mid ds k) = length ds"
  by (induction ds arbitrary: k) auto

lemma store_deliveries_txn:
  "txn w = Some t \<Longrightarrow> store_deliveries w mid ds k = (r, w') \<Longrightarrow>
     store w' = store w \<and> same_env w w' \<and>
     (r = Inr () \<longrightarrow> txn w' = Some (t\<lparr>t_deliveries := t_deliveries t @ delivery_rows mid ds k\<rparr>))"
proof (induction ds arbitrary: w t k)
  case Nil
  then show ?case by (simp add: same_env_def)
next
  case (Cons d ds)
  show ?case
  proof (cases "fails w")
    case (Some e)
    with Cons.prems show ?thesis
      by (auto simp: storeDelivery_def tick_def same_env_def)
  next
    case None
    let ?t1 = "t\<lparr>t_deliveries := t_deliveries t @ [delivery_params mid d (k + 1)]\<rparr>"
    let ?w1 = "write_view (tick w) ?t1"
    from None Cons.prems have sd: "storeDelivery w mid d (k + 1) = (Inr (), ?w1)"
      by (simp add: storeDelivery_def view_def)
    have t1: "txn ?w1 = Some ?t1" using Cons.prems(1) by (simp add: write_view_def tick_def)
    from Cons.prems(2) sd have rest: "store_deliveries ?w1 mid ds (k + 1) = (r, w')" by simp
    from Cons.IH[OF t1 rest] Cons.prems(1) show ?thesis
      by (auto simp: same_env_def write_view_def tick_def)
  qed
qed

lemma storeManifest_try_effect:
  assumes "storeManifest_try w md pinfo = (r, w')"
  shows "same_env w w' \<and>
     (case r of
        Inl e \<Rightarrow> store w' = store w
      | Inr mid \<Rightarrow>
          mid \<notin> set (map m_id (t_manifests (store w))) \<and> txn w' = None \<and>
          store w' = (store w)\<lparr>t_manifests := t_manifests (store w) @ [manifest_params (now w) md pinfo mid],
                                t_deliveries := t_deliveries (store w) @ delivery_rows mid (deliveries_or_empty md) 0\<rparr>)"
proof (cases "fails w")
  case (Some e)
  with assms show ?thesis
    by (auto simp: storeManifest_try_def sql_begin_def tick_def same_env_def)
next
  case None
  define w1 where "w1 = (tick w)\<lparr>txn := Some (store w)\<rparr>"
  define w2 where "w2 = (if snd (parse_planned_delivery_date (planned_delivery_date md))
                     then log_line Warn ''Could not parse date:'' w1 else w1)"
  have w2: "txn w2 = Some (store w)" "store w2 = store w" "same_env w w2"
    by (auto simp: w2_def w1_def log_line_def tick_def same_env_def)
  from None assms have step: "(case insert_manifest w2 md pinfo of
                (Inl e, w3) \<Rightarrow> (Inl e, w3)
              | (Inr manifestId, w3) \<Rightarrow>
                  (case store_deliveries w3 manifestId (deliveries_or_empty md) 0 of
                     (Inl e, w4) \<Rightarrow> (Inl e, w4)
                   | (Inr _, w4) \<Rightarrow>
                       (case sql_commit w4 of
                          (Inl e, w5) \<Rightarrow> (Inl e, w5)
                        | (Inr _, w5) \<Rightarrow> (Inr manifestId, log_line Info ''Stored manifest'' w5)))) = (r, w')"
    by (simp add: storeManifest_try_def sql_begin_def w1_def w2_def Let_def split del: if_split cong: if_cong)
  obtain r3 w3 where im: "insert_manifest w2 md pinfo = (r3, w3)" by force
  show ?thesis
  proof (cases r3)
    case (Inl e)
    with im step have "r = Inl e" "w' = w3" by auto
    moreover from im Inl w2 have "store w3 = store w" "same_env w w3"
      by (auto simp: insert_manifest_def tick_def same_env_def Let_def split: option.splits if_splits)
    ultimately show ?thesis by simp
  next
    case (Inr mid)
    let ?t3 = "(store w)\<lparr>t_manifests := t_manifests (store w) @ [manifest_params (now w) md pinfo mid]\<rparr>"
    from im Inr w2 have w3: "txn w3 = Some ?t3" "store w3 = store w" "same_env w w3"
       and fresh: "mid \<notin> set (map m_id (t_manifests (store w)))"
      by (auto simp: insert_manifest_def tick_def same_env_def Let_def view_def write_view_def split: option.splits if_splits)
    obtain r4 w4 where sd: "store_deliveries w3 mid (deliveries_or_empty md) 0 = (r4, w4)" by force
    from store_deliveries_txn[OF w3(1) sd] w3 have w4: "store w4 = store w" "same_env w w4"
      and w4t: "r4 = Inr () \<longrightarrow> txn w4 = Some (?t3\<lparr>t_deliveries := t_deliveries ?t3 @ delivery_rows mid (deliveries_or_empty md) 0\<rparr>)"
      by (auto simp: same_env_def)
    show ?thesis
    proof (cases r4)
      case (Inl e)
      with im Inr sd step have "r = Inl e" "w' = w4" by auto
      with w4 show ?thesis by simp
    next
      case r4: (Inr u)
      show ?thesis
      proof (cases "fails w4")
        case (Some e)
        with im Inr sd r4 step have "r = Inl e" "w' = tick w4" by (auto simp: sql_commit_def)
        with w4 show ?thesis by (auto simp: tick_def same_env_def)
      next
        case None
        with im Inr sd r4 step have "r = Inr mid"
          "w' = log_line Info ''Stored manifest'' ((tick w4)\<lparr>store := view w4, txn := None\<rparr>)"
          by (auto simp: sql_commit_def)
        with w4 w4t r4 fresh show ?thesis
          by (auto simp: tick_def same_env_def log_line_def view_def)
      qed
    qed
  qed
qed

lemma storeManifest_effect:
  assumes "storeManifest w md pinfo = (r, w')"
  shows "same_env w w' \<and>
     (case r of
        Inl e \<Rightarrow> store w' = store w
      | Inr mid \<Rightarrow>
          mid \<notin> set (map m_id (t_manifests (store w))) \<and>
          store w' = (store w)\<lparr>t_manifests := t_manifests (store w) @ [manifest_params (now w) md pinfo mid],
                                t_deliveries := t_deliveries (store w) @ delivery_rows mid (deliveries_or_empty md) 0\<rparr>)"
proof (cases "fails w")
  case (Some e)
  with assms show ?thesis
    by (auto simp: storeManifest_def pool_connect_def tick_def same_env_def)
next
  case None
  define w0 where "w0 = (tick w)\<lparr>in_use := Suc (in_use w)\<rparr>"
  have w0: "store w0 = store w" "now w0 = now w" "fault w0 = fault w" "genid w0 = genid w" "in_use w0 = Suc (in_use w)"
    by (simp_all add: w0_def tick_def)
  obtain r1 w1 where t: "storeManifest_try w0 md pinfo = (r1, w1)" by force
  note eff = storeManifest_try_effect[OF t]
  from None assms t have step: "(case r1 of
             Inr manifestId \<Rightarrow> (Inr manifestId, client_release w1)
           | Inl e \<Rightarrow>
               (case sql_rollback w1 of
                  (Inl e2, w2) \<Rightarrow> (Inl e2, client_release w2)
                | (Inr _, w2) \<Rightarrow> (Inl e, client_release (log_line Error ''Error storing manifest:'' w2)))) = (r, w')"
    by (simp add: storeManifest_def pool_connect_def w0_def split: sum.splits)
  show ?thesis
  proof (cases r1)
    case (Inr mid)
    with step have "r = Inr mid" "w' = client_release w1" by auto
    with eff Inr w0 show ?thesis
      by (auto simp: same_env_def client_release_def)
  next
    case (Inl e)
    with step eff w0 show ?thesis
      by (auto simp: same_env_def client_release_def sql_rollback_def tick_def log_line_def split: option.splits)
  qed
qed


text \<open>The driver calls that the loop of the deliveries makes, and the one that throws.\<close>

lemma store_deliveries_calls:
  assumes "store_deliveries w mid ds k = (r, w')"
  shows "case r of
           Inr u \<Rightarrow> calls w' = calls w + length ds \<and>
                    (\<forall>i. calls w \<le> i \<and> i < calls w' \<longrightarrow> fault w i = None)
         | Inl e \<Rightarrow> calls w < calls w' \<and> calls w' \<le> calls w + length ds \<and>
                    fault w (calls w' - 1) = Some e"
  using assms
proof (induction ds arbitrary: w k)
  case Nil
  then show ?case by auto
next
  case (Cons d ds)
  show ?case
  proof (cases "fault w (calls w)")
    case (Some e)
    with Cons.prems show ?thesis
      by (auto simp: storeDelivery_def fails_def tick_def)
  next
    case None
    define w1 where "w1 = write_view (tick w)
        ((view w)\<lparr>t_deliveries := t_deliveries (view w) @ [delivery_params mid d (k + 1)]\<rparr>)"
    have w1: "calls w1 = Suc (calls w)" "fault w1 = fault w"
      by (simp_all add: w1_def write_view_def tick_def split: option.splits)
    from None Cons.prems have rest: "store_deliveries w1 mid ds (k + 1) = (r, w')"
      by (simp add: storeDelivery_def fails_def w1_def)
    note ih = Cons.IH[OF rest]
    show ?thesis
    proof (cases r)
      case (Inr u)
      with ih w1 have a: "calls w' = Suc (calls w) + length ds"
        and b: "\<forall>i. Suc (calls w) \<le> i \<and> i < calls w' \<longrightarrow> fault w i = None"
        by simp_all
      have "\<forall>i. calls w \<le> i \<and> i < calls w' \<longrightarrow> fault w i = None"
      proof (intro allI impI)
        fix i assume "calls w \<le> i \<and> i < calls w'"
        then consider "i = calls w" | "Suc (calls w) \<le> i \<and> i < calls w'" by linarith
        then show "fault w i = None" using None b by cases auto
      qed
      with a Inr show ?thesis by simp
    next
      case (Inl e)
      with ih w1 show ?thesis by auto
    qed
  qed
qed

lemma storeManifest_try_calls:
  assumes "storeManifest_try w md pinfo = (r, w')"
  shows "case r of
           Inr mid \<Rightarrow>
             calls w' = calls w + 3 + length (deliveries_or_empty md) \<and>
             mid = genid w (Suc (calls w)) \<and>
             (\<forall>i. calls w \<le> i \<and> i < calls w' \<longrightarrow> fault w i = None)
         | Inl e \<Rightarrow>
             calls w < calls w' \<and> calls w' \<le> calls w + 3 + length (deliveries_or_empty md) \<and>
             (fault w (calls w' - 1) = Some e \<or>
              calls w' = calls w + 2 \<and> fault w (Suc (calls w)) = None \<and>
              genid w (Suc (calls w)) \<in> set (map m_id (t_manifests (store w)))) \<and>
             (calls w' = Suc (calls w) \<or> txn w' \<noteq> None)"
proof (cases "fault w (calls w)")
  case (Some e)
  with assms show ?thesis
    by (auto simp: storeManifest_try_def sql_begin_def fails_def tick_def)
next
  case None
  define w2 where "w2 = (if snd (parse_planned_delivery_date (planned_delivery_date md))
                     then log_line Warn ''Could not parse date:'' ((tick w)\<lparr>txn := Some (store w)\<rparr>)
                     else (tick w)\<lparr>txn := Some (store w)\<rparr>)"
  have w2: "txn w2 = Some (store w)" "calls w2 = Suc (calls w)" "fault w2 = fault w" "genid w2 = genid w"
    by (auto simp: w2_def log_line_def tick_def)
  from None assms have step: "(case insert_manifest w2 md pinfo of
                (Inl e, w3) \<Rightarrow> (Inl e, w3)
              | (Inr manifestId, w3) \<Rightarrow>
                  (case store_deliveries w3 manifestId (deliveries_or_empty md) 0 of
                     (Inl e, w4) \<Rightarrow> (Inl e, w4)
                   | (Inr _, w4) \<Rightarrow>
                       (case sql_commit w4 of
                          (Inl e, w5) \<Rightarrow> (Inl e, w5)
                        | (Inr _, w5) \<Rightarrow> (Inr manifestId, log_line Info ''Stored manifest'' w5)))) = (r, w')"
    by (simp add: storeManifest_try_def sql_begin_def fails_def w2_def Let_def split del: if_split cong: if_cong)
  obtain r3 w3 where im: "insert_manifest w2 md pinfo = (r3, w3)" by force
  show ?thesis
  proof (cases r3)
    case (Inl e)
    with im step have "r = Inl e" "w' = w3" by auto
    moreover from im Inl w2 have "calls w3 = Suc (Suc (calls w))" "txn w3 \<noteq> None"
      "fault w (Suc (calls w)) = Some e \<or>
       fault w (Suc (calls w)) = None \<and> genid w (Suc (calls w)) \<in> set (map m_id (t_manifests (store w)))"
      by (auto simp: insert_manifest_def fails_def tick_def Let_def view_def split: option.splits if_splits)
    ultimately show ?thesis by auto
  next
    case (Inr mid)
    from im Inr w2 have w3: "txn w3 \<noteq> None" "calls w3 = Suc (Suc (calls w))" "fault w3 = fault w"
       and mid: "mid = genid w (Suc (calls w))" and f1: "fault w (Suc (calls w)) = None"
      by (auto simp: insert_manifest_def fails_def tick_def Let_def view_def write_view_def
               split: option.splits if_splits)
    obtain r4 w4 where sd: "store_deliveries w3 mid (deliveries_or_empty md) 0 = (r4, w4)" by force
    obtain t3 where t3: "txn w3 = Some t3" using w3(1) by auto
    from store_deliveries_txn[OF t3 sd] have env4: "fault w4 = fault w3"
      and txn4: "r4 = Inr () \<longrightarrow> txn w4 \<noteq> None"
      by (simp_all add: same_env_def)
    note c4 = store_deliveries_calls[OF sd]
    show ?thesis
    proof (cases r4)
      case (Inl e)
      with im Inr sd step have res: "r = Inl e" "w' = w4" by auto
      from c4 Inl w3 have "calls w3 < calls w4" "calls w4 \<le> calls w3 + length (deliveries_or_empty md)"
        "fault w (calls w4 - 1) = Some e"
        by simp_all
      moreover have "txn w4 \<noteq> None"
      proof -
        have "\<And>w mid ds k r w'. txn w \<noteq> None \<Longrightarrow> store_deliveries w mid ds k = (r, w') \<Longrightarrow> txn w' \<noteq> None"
        proof -
          fix w :: dbsvc and mid ds k r w'
          show "txn w \<noteq> None \<Longrightarrow> store_deliveries w mid ds k = (r, w') \<Longrightarrow> txn w' \<noteq> None"
          proof (induction ds arbitrary: w k)
            case Nil
            then show ?case by simp
          next
            case (Cons d ds)
            show ?case
            proof (cases "fails w")
              case (Some e)
              with Cons.prems show ?thesis by (auto simp: storeDelivery_def tick_def)
            next
              case None
              let ?w1 = "write_view (tick w)
                 ((view w)\<lparr>t_deliveries := t_deliveries (view w) @ [delivery_params mid d (k + 1)]\<rparr>)"
              from Cons.prems(1) have "txn ?w1 \<noteq> None"
                by (auto simp: write_view_def tick_def)
              moreover from None Cons.prems(2) have "store_deliveries ?w1 mid ds (k + 1) = (r, w')"
                by (simp add: storeDelivery_def)
              ultimately show ?thesis by (rule Cons.IH)
            qed
          qed
        qed
        from this[OF w3(1) sd] show ?thesis .
      qed
      ultimately show ?thesis using res w3(2) by auto
    next
      case r4: (Inr u)
      with c4 w3 have calls4: "calls w4 = calls w + 2 + length (deliveries_or_empty md)"
        and nf4: "\<forall>i. Suc (Suc (calls w)) \<le> i \<and> i < calls w4 \<longrightarrow> fault w i = None"
        by simp_all
      from txn4 r4 have t4: "txn w4 \<noteq> None" by simp
      show ?thesis
      proof (cases "fault w (calls w4)")
        case (Some e)
        with im Inr sd r4 step env4 w3 have "r = Inl e" "w' = tick w4"
          by (auto simp: sql_commit_def fails_def)
        with Some calls4 t4 show ?thesis by (auto simp: tick_def)
      next
        case fc: None
        with im Inr sd r4 step env4 w3 have res: "r = Inr mid"
          "w' = log_line Info ''Stored manifest'' ((tick w4)\<lparr>store := view w4, txn := None\<rparr>)"
          by (auto simp: sql_commit_def fails_def)
        have "\<forall>i. calls w \<le> i \<and> i < Suc (calls w4) \<longrightarrow> fault w i = None"
        proof (intro allI impI)
          fix i assume i: "calls w \<le> i \<and> i < Suc (calls w4)"
          then consider "i = calls w" | "i = Suc (calls w)" | "Suc (Suc (calls w)) \<le> i \<and> i < calls w4" | "i = calls w4"
            by linarith
          then show "fault w i = None"
            using None f1 nf4 fc by cases auto
        qed
        with res calls4 mid show ?thesis by (simp add: tick_def log_line_def)
      qed
    qed
  qed
qed


text \<open>
  The driver calls of \<open>storeManifest\<close>. When it returns, the calls were connect, BEGIN,
  the INSERTs and COMMIT, and none threw. When it throws after the connect, the call
  before the last one is the statement that failed (it threw, or it was the INSERT of
  the manifest and the generated id was taken) and the last call is ROLLBACK.
\<close>

lemma storeManifest_calls:
  assumes "storeManifest w md pinfo = (r, w')"
  shows "case r of
           Inr mid \<Rightarrow>
             txn w' = None \<and> calls w' = calls w + 4 + length (deliveries_or_empty md) \<and>
             mid = genid w (calls w + 2) \<and>
             (\<forall>i. calls w \<le> i \<and> i < calls w' \<longrightarrow> fault w i = None)
         | Inl e \<Rightarrow>
             (if fault w (calls w) = None
              then calls w + 3 \<le> calls w' \<and> calls w' \<le> calls w + 5 + length (deliveries_or_empty md) \<and>
                   (fault w (calls w' - 2) \<noteq> None \<or>
                    calls w' = calls w + 4 \<and>
                    genid w (calls w + 2) \<in> set (map m_id (t_manifests (store w)))) \<and>
                   (case fault w (calls w' - 1) of None \<Rightarrow> txn w' = None | Some e2 \<Rightarrow> e = e2)
              else calls w' = Suc (calls w) \<and> fault w (calls w) = Some e \<and> txn w' = txn w)"
proof (cases "fault w (calls w)")
  case (Some e)
  with assms show ?thesis
    by (auto simp: storeManifest_def pool_connect_def fails_def tick_def)
next
  case None
  define w0 where "w0 = (tick w)\<lparr>in_use := Suc (in_use w)\<rparr>"
  have w0: "store w0 = store w" "fault w0 = fault w" "genid w0 = genid w" "calls w0 = Suc (calls w)"
    by (simp_all add: w0_def tick_def)
  obtain r1 w1 where t: "storeManifest_try w0 md pinfo = (r1, w1)" by force
  note eff = storeManifest_try_effect[OF t]
  note cl = storeManifest_try_calls[OF t]
  from eff w0 have f1: "fault w1 = fault w" by (simp add: same_env_def)
  from None assms t have step: "(case r1 of
             Inr manifestId \<Rightarrow> (Inr manifestId, client_release w1)
           | Inl e \<Rightarrow>
               (case sql_rollback w1 of
                  (Inl e2, w2) \<Rightarrow> (Inl e2, client_release w2)
                | (Inr _, w2) \<Rightarrow> (Inl e, client_release (log_line Error ''Error storing manifest:'' w2)))) = (r, w')"
    by (simp add: storeManifest_def pool_connect_def fails_def w0_def split: sum.splits)
  show ?thesis
  proof (cases r1)
    case (Inr mid)
    with step have res: "r = Inr mid" "w' = client_release w1" by auto
    from cl Inr w0 have "calls w1 = calls w + 4 + length (deliveries_or_empty md)"
      "mid = genid w (calls w + 2)"
      and nf: "\<forall>i. Suc (calls w) \<le> i \<and> i < calls w1 \<longrightarrow> fault w i = None"
      by simp_all
    moreover have "\<forall>i. calls w \<le> i \<and> i < calls w1 \<longrightarrow> fault w i = None"
    proof (intro allI impI)
      fix i assume "calls w \<le> i \<and> i < calls w1"
      then consider "i = calls w" | "Suc (calls w) \<le> i \<and> i < calls w1" by linarith
      then show "fault w i = None" using None nf by cases auto
    qed
    moreover from eff Inr have "txn w1 = None" by simp
    ultimately show ?thesis using res by (simp add: client_release_def)
  next
    case (Inl e1)
    with cl w0 have c1: "Suc (calls w) < calls w1"
      "calls w1 \<le> calls w + 4 + length (deliveries_or_empty md)"
      and failed: "fault w (calls w1 - 1) = Some e1 \<or>
         calls w1 = calls w + 3 \<and> genid w (calls w + 2) \<in> set (map m_id (t_manifests (store w)))"
      by auto
    show ?thesis
    proof (cases "fault w (calls w1)")
      case rb: None
      with Inl step f1 have res: "r = Inl e1"
        "w' = client_release (log_line Error ''Error storing manifest:'' ((tick w1)\<lparr>txn := None\<rparr>))"
        by (auto simp: sql_rollback_def fails_def)
      then have c: "calls w' = Suc (calls w1)" "txn w' = None"
        by (simp_all add: client_release_def log_line_def tick_def)
      with c1 failed rb None res(1) show ?thesis by auto
    next
      case rb: (Some e2)
      with Inl step f1 have res: "r = Inl e2" "w' = client_release (tick w1)"
        by (auto simp: sql_rollback_def fails_def)
      then have c: "calls w' = Suc (calls w1)"
        by (simp add: client_release_def tick_def)
      with c1 failed rb None res(1) show ?thesis by auto
    qed
  qed
qed

lemma storeManifest_commits:
  assumes run: "storeManifest w md pinfo = (r, w')"
      and nofault: "\<forall>i. calls w \<le> i \<and> i < calls w + 4 + length (deliveries_or_empty md) \<longrightarrow> fault w i = None"
      and fresh: "genid w (calls w + 2) \<notin> set (map m_id (t_manifests (store w)))"
  shows "r = Inr (genid w (calls w + 2))"
proof (cases r)
  case (Inr mid)
  with storeManifest_calls[OF run] show ?thesis by simp
next
  case (Inl e)
  from nofault have c0: "fault w (calls w) = None" by simp
  from storeManifest_calls[OF run] Inl
  have "if fault w (calls w) = None
        then calls w + 3 \<le> calls w' \<and> calls w' \<le> calls w + 5 + length (deliveries_or_empty md) \<and>
             (fault w (calls w' - 2) \<noteq> None \<or>
              calls w' = calls w + 4 \<and>
              genid w (calls w + 2) \<in> set (map m_id (t_manifests (store w)))) \<and>
             (case fault w (calls w' - 1) of None \<Rightarrow> txn w' = None | Some e2 \<Rightarrow> e = e2)
        else calls w' = Suc (calls w) \<and> fault w (calls w) = Some e \<and> txn w' = txn w"
    by simp
  with c0 have a: "calls w + 3 \<le> calls w'" "calls w' \<le> calls w + 5 + length (deliveries_or_empty md)"
    and b: "fault w (calls w' - 2) \<noteq> None \<or>
              calls w' = calls w + 4 \<and>
              genid w (calls w + 2) \<in> set (map m_id (t_manifests (store w)))"
    by simp_all
  from b fresh have b': "fault w (calls w' - 2) \<noteq> None" by simp
  from a have "calls w \<le> calls w' - 2 \<and> calls w' - 2 < calls w + 4 + length (deliveries_or_empty md)"
    by linarith
  with nofault[rule_format, of "calls w' - 2"] have "fault w (calls w' - 2) = None" by simp
  with b' show ?thesis by simp
qed

text \<open>
  C1. Every call of \<open>storeManifest\<close> gives the client back to the pool. When it
  returns an id, the manifest row and one row for each delivery have been committed
  together by the calls connect, BEGIN, INSERT (one per row) and COMMIT, and no
  transaction is left open. When it throws, the committed content of the database is
  what it was, so no row of the manifest is visible; unless the connect itself failed
  (then nothing was begun), the call before the last is the statement that failed and
  the last call is ROLLBACK: when ROLLBACK goes through no transaction is left open,
  and when it throws its error is the one thrown. A call in which no driver call
  fails, and for which the database generates an unused id, returns that id.
\<close>

theorem storeManifest_atomic:
  assumes "storeManifest w manifestData processingInfo = (r, w')"
  shows "in_use w' = in_use w \<and>
     (case r of
        Inl e \<Rightarrow>
          store w' = store w \<and>
          (if fault w (calls w) = None
           then calls w + 3 \<le> calls w' \<and>
                (fault w (calls w' - 2) \<noteq> None \<or>
                 calls w' = calls w + 4 \<and>
                 genid w (calls w + 2) \<in> set (map m_id (t_manifests (store w)))) \<and>
                (case fault w (calls w' - 1) of None \<Rightarrow> txn w' = None | Some e2 \<Rightarrow> e = e2)
           else calls w' = Suc (calls w) \<and> fault w (calls w) = Some e \<and> txn w' = txn w)
      | Inr manifestId \<Rightarrow>
          txn w' = None \<and>
          calls w' = calls w + 4 + length (deliveries_or_empty manifestData) \<and>
          store w' = (store w)\<lparr>
            t_manifests := t_manifests (store w) @ [manifest_params (now w) manifestData processingInfo manifestId],
            t_deliveries := t_deliveries (store w) @
               delivery_rows manifestId (deliveries_or_empty manifestData) 0\<rparr>) \<and>
     ((\<forall>i. calls w \<le> i \<and> i < calls w + 4 + length (deliveries_or_empty manifestData) \<longrightarrow> fault w i = None) \<and>
      genid w (calls w + 2) \<notin> set (map m_id (t_manifests (store w))) \<longrightarrow>
        r = Inr (genid w (calls w + 2)))"
proof (intro conjI)
  from storeManifest_effect[OF assms] show "in_use w' = in_use w" by (simp add: same_env_def)
  from storeManifest_effect[OF assms] storeManifest_calls[OF assms]
  show "case r of
        Inl e \<Rightarrow>
          store w' = store w \<and>
          (if fault w (calls w) = None
           then calls w + 3 \<le> calls w' \<and>
                (fault w (calls w' - 2) \<noteq> None \<or>
                 calls w' = calls w + 4 \<and>
                 genid w (calls w + 2) \<in> set (map m_id (t_manifests (store w)))) \<and>
                (case fault w (calls w' - 1) of None \<Rightarrow> txn w' = None | Some e2 \<Rightarrow> e = e2)
           else calls w' = Suc (calls w) \<and> fault w (calls w) = Some e \<and> txn w' = txn w)
      | Inr manifestId \<Rightarrow>
          txn w' = None \<and>
          calls w' = calls w + 4 + length (deliveries_or_empty manifestData) \<and>
          store w' = (store w)\<lparr>
            t_manifests := t_manifests (store w) @ [manifest_params (now w) manifestData processingInfo manifestId],
            t_deliveries := t_deliveries (store w) @
               delivery_rows manifestId (deliveries_or_empty manifestData) 0\<rparr>"
    by (cases r) (simp_all split: if_splits)
  show "(\<forall>i. calls w \<le> i \<and> i < calls w + 4 + length (deliveries_or_empty manifestData) \<longrightarrow> fault w i = None) \<and>
      genid w (calls w + 2) \<notin> set (map m_id (t_manifests (store w))) \<longrightarrow>
        r = Inr (genid w (calls w + 2))"
    using storeManifest_commits[OF assms] by blast
qed

text \<open>The definitions that a run of \<open>storeManifest\<close> on a concrete input unfolds.\<close>

lemmas run_storeManifest =
  storeManifest_def storeManifest_try_def pool_connect_def sql_begin_def sql_commit_def sql_rollback_def
  insert_manifest_def storeDelivery_def fails_def tick_def view_def write_view_def client_release_def
  log_line_def deliveries_or_empty_def Let_def

lemma no_warning_for_strings [simp]: "snd (parse_planned_delivery_date (JStr s)) = False"
  by (simp add: parse_planned_delivery_date_def Let_def)

text \<open>
  A write that fails at its second delivery (the call with index 4) throws that error,
  leaves the database empty, no transaction open and the pool complete; the same write
  without a failure returns the generated id and commits the manifest with its two
  deliveries.
\<close>

theorem storeManifest_atomic_witness:
  "fst (storeManifest (example_env (Some 4)) (example_manifest (JStr ''15/01/2024'') two_deliveries) example_info)
     = Inl ''connection lost'' \<and>
   store (snd (storeManifest (example_env (Some 4)) (example_manifest (JStr ''15/01/2024'') two_deliveries) example_info))
     = empty_tables \<and>
   txn (snd (storeManifest (example_env (Some 4)) (example_manifest (JStr ''15/01/2024'') two_deliveries) example_info))
     = None \<and>
   in_use (snd (storeManifest (example_env (Some 4)) (example_manifest (JStr ''15/01/2024'') two_deliveries) example_info))
     = 0 \<and>
   fst (storeManifest (example_env None) (example_manifest (JStr ''15/01/2024'') two_deliveries) example_info)
     = Inr (example_uuid 2) \<and>
   map m_id (t_manifests (store (snd (storeManifest (example_env None)
      (example_manifest (JStr ''15/01/2024'') two_deliveries) example_info)))) = [example_uuid 2] \<and>
   map d_delivery_order (t_deliveries (store (snd (storeManifest (example_env None)
      (example_manifest (JStr ''15/01/2024'') two_deliveries) example_info)))) = [1, 2] \<and>
   txn (snd (storeManifest (example_env None) (example_manifest (JStr ''15/01/2024'') two_deliveries) example_info))
     = None \<and>
   in_use (snd (storeManifest (example_env None) (example_manifest (JStr ''15/01/2024'') two_deliveries) example_info))
     = 0"
proof -
  let ?m = "example_manifest (JStr ''15/01/2024'') two_deliveries"
  let ?bad = "storeManifest (example_env (Some 4)) ?m example_info"
  let ?good = "storeManifest (example_env None) ?m example_info"
  have ds: "deliveries_or_empty ?m = two_deliveries"
    by (simp add: deliveries_or_empty_def example_manifest_def)
  have bad: "fst ?bad = Inl ''connection lost''" "calls (snd ?bad) = 6"
    by (simp_all add: run_storeManifest example_env_def example_manifest_def two_deliveries_def empty_tables_def)
  have "?bad = (fst ?bad, snd ?bad)" by simp
  from storeManifest_atomic[OF this] bad
  have 1: "store (snd ?bad) = empty_tables" "txn (snd ?bad) = None" "in_use (snd ?bad) = 0"
    by (simp_all add: example_env_def)
  have "?good = (fst ?good, snd ?good)" by simp
  note g = storeManifest_atomic[OF this, unfolded ds]
  have nofault: "\<forall>i. calls (example_env None) \<le> i \<and> i < calls (example_env None) + 4 + length two_deliveries
                   \<longrightarrow> fault (example_env None) i = None"
    by (simp add: example_env_def)
  have fresh: "genid (example_env None) (calls (example_env None) + 2)
                 \<notin> set (map m_id (t_manifests (store (example_env None))))"
    by (simp add: example_env_def empty_tables_def)
  have env: "calls (example_env None) = 0" "genid (example_env None) = example_uuid"
    "in_use (example_env None) = 0"
    by (simp_all add: example_env_def)
  from g[THEN conjunct2, THEN conjunct2] nofault fresh
  have "fst ?good = Inr (genid (example_env None) (calls (example_env None) + 2))"
    by blast
  then have id: "fst ?good = Inr (example_uuid 2)"
    by (simp add: env numeral_2_eq_2)
  from g[THEN conjunct1] g[THEN conjunct2, THEN conjunct1] id have 2: "txn (snd ?good) = None" "in_use (snd ?good) = 0"
    "store (snd ?good) = (store (example_env None))\<lparr>
       t_manifests := t_manifests (store (example_env None)) @
          [manifest_params (now (example_env None)) ?m example_info (example_uuid 2)],
       t_deliveries := t_deliveries (store (example_env None)) @
          delivery_rows (example_uuid 2) two_deliveries 0\<rparr>"
    by (simp_all add: env)
  have len: "length two_deliveries = 2"
    by (simp add: two_deliveries_def)
  have 3: "map m_id (t_manifests (store (snd ?good))) = [example_uuid 2]"
    "map d_delivery_order (t_deliveries (store (snd ?good))) = [1, 2]"
    unfolding 2(3)
    by (simp_all add: example_env_def empty_tables_def manifest_params_def Let_def delivery_rows_order
                      len upt_conv_Cons del: upt_Suc)
  from bad(1) 1 id 2(1,2) 3 show ?thesis by simp
qed


subsection \<open>Reading back what was stored\<close>

lemma select_new_deliveries:
  assumes fk: "fk_ok t" and fresh: "mid \<notin> set (map m_id (t_manifests t))"
  shows "select_deliveries (t\<lparr>t_manifests := ms, t_deliveries := t_deliveries t @ delivery_rows mid ds 0\<rparr>) mid
           = delivery_rows mid ds 0"
proof -
  have old: "filter (\<lambda>d. d_manifest_id d = mid) (t_deliveries t) = []"
    using fk fresh by (auto simp: fk_ok_def list_all_iff filter_empty_conv)
  have new: "filter (\<lambda>d. d_manifest_id d = mid) (delivery_rows mid ds 0) = delivery_rows mid ds 0"
    by (simp add: delivery_rows_manifest_id)
  have "sorted (map d_delivery_order (delivery_rows mid ds 0))"
    by (simp only: delivery_rows_order sorted_upt)
  then have "sort_key d_delivery_order (delivery_rows mid ds 0) = delivery_rows mid ds 0"
    by (rule sort_key_id_if_sorted)
  with old new show ?thesis by (simp add: select_deliveries_def)
qed

lemma manifest_with_deliveries_result:
  assumes "manifest_with_deliveries w sel = (Inr found, w')"
  shows "found = (case sel (store w) of [] \<Rightarrow> None | m # _ \<Rightarrow> Some (m, select_deliveries (store w) (m_id m)))
         \<and> store w' = store w \<and> same_env w w'"
  using assms
  by (auto simp: manifest_with_deliveries_def pool_connect_def client_query_def client_release_def
                 tick_def same_env_def
           split: option.splits list.splits)

text \<open>
  C3. In a database that respects the foreign key of \<open>deliveries\<close>, reading the id
  returned by a successful \<open>storeManifest\<close> back with \<open>getManifestById\<close> yields
  that manifest: its \<open>delivery_count\<close> is the number of delivery rows returned, their
  order indices are exactly 1 to that number, and they are the extracted deliveries in
  extraction order.
\<close>

theorem storeManifest_read_back:
  assumes fk: "fk_ok (store w)"
      and stored: "storeManifest w manifestData processingInfo = (Inr manifestId, w')"
      and read: "getManifestById w' manifestId = (Inr found, w'')"
  shows "\<exists>manifest rows.
           found = Some (manifest, rows) \<and> m_id manifest = manifestId \<and>
           m_delivery_count manifest = length rows \<and>
           map d_delivery_order rows = [1 ..< Suc (length rows)] \<and>
           map d_raw_delivery_data rows = deliveries_or_empty manifestData"
proof -
  let ?ds = "deliveries_or_empty manifestData"
  let ?row = "manifest_params (now w) manifestData processingInfo manifestId"
  from storeManifest_effect[OF stored]
  have fresh: "manifestId \<notin> set (map m_id (t_manifests (store w)))"
   and st: "store w' = (store w)\<lparr>t_manifests := t_manifests (store w) @ [?row],
                                  t_deliveries := t_deliveries (store w) @ delivery_rows manifestId ?ds 0\<rparr>"
    by simp_all
  have old: "filter (\<lambda>m. m_id m = manifestId) (t_manifests (store w)) = []"
    using fresh by (auto simp: filter_empty_conv)
  have sel: "filter (\<lambda>m. m_id m = manifestId) (t_manifests (store w')) = [?row]"
    using old by (simp add: st manifest_params_def Let_def)
  have rows: "select_deliveries (store w') manifestId = delivery_rows manifestId ?ds 0"
    unfolding st by (rule select_new_deliveries[OF fk fresh])
  from manifest_with_deliveries_result[OF read[unfolded getManifestById_def]] sel rows
  have found: "found = Some (?row, delivery_rows manifestId ?ds 0)"
    by (simp add: manifest_params_def Let_def)
  show ?thesis
    unfolding found
    by (simp add: delivery_rows_order delivery_rows_raw delivery_rows_length manifest_params_def Let_def
             del: upt_Suc)
qed


text \<open>The foreign key is an invariant of \<open>storeManifest\<close>.\<close>

lemma storeManifest_keeps_fk:
  assumes "fk_ok (store w)" and "storeManifest w manifestData processingInfo = (r, w')"
  shows "fk_ok (store w')"
proof (cases r)
  case (Inl e)
  with storeManifest_effect[OF assms(2)] assms(1) show ?thesis by simp
next
  case (Inr mid)
  with storeManifest_effect[OF assms(2)] assms(1) show ?thesis
    by (auto simp: fk_ok_def list_all_iff manifest_params_def Let_def dest: delivery_rows_manifest_id)
qed

lemma lookup_without_fault:
  assumes "fault w = (\<lambda>_. None)"
  shows "\<exists>found. fst (manifest_with_deliveries w sel) = Inr found"
  using assms
  by (auto simp: manifest_with_deliveries_def pool_connect_def client_query_def fails_def tick_def
           split: list.splits)

text \<open>Two deliveries stored in the empty database and read back.\<close>

theorem storeManifest_read_back_witness:
  "fk_ok (store (example_env None)) \<and>
   fst (storeManifest (example_env None) (example_manifest (JStr ''15/01/2024'') two_deliveries) example_info)
     = Inr (example_uuid 2) \<and>
   (case fst (getManifestById
                (snd (storeManifest (example_env None) (example_manifest (JStr ''15/01/2024'') two_deliveries)
                        example_info))
                (example_uuid 2)) of
      Inr (Some (manifest, rows)) \<Rightarrow>
        m_delivery_count manifest = 2 \<and> map d_delivery_order rows = [1, 2] \<and>
        map d_raw_delivery_data rows = two_deliveries
    | _ \<Rightarrow> False)"
proof -
  let ?w = "example_env None"
  let ?m = "example_manifest (JStr ''15/01/2024'') two_deliveries"
  let ?run = "storeManifest ?w ?m example_info"
  let ?read = "getManifestById (snd ?run) (example_uuid 2)"
  have fk: "fk_ok (store ?w)"
    by (simp add: fk_ok_def example_env_def empty_tables_def)
  have id: "fst ?run = Inr (example_uuid 2)"
    by (simp add: run_storeManifest example_env_def example_manifest_def two_deliveries_def empty_tables_def
                  numeral_2_eq_2)
  then have stored: "?run = (Inr (example_uuid 2), snd ?run)"
    by (metis prod.collapse)
  from storeManifest_effect[OF stored] have "fault (snd ?run) = (\<lambda>_. None)"
    by (simp add: same_env_def example_env_def)
  from lookup_without_fault[OF this] obtain found where f: "fst ?read = Inr found"
    unfolding getManifestById_def by blast
  then have read: "?read = (Inr found, snd ?read)"
    by (metis prod.collapse)
  have ds: "deliveries_or_empty ?m = two_deliveries"
    by (simp add: deliveries_or_empty_def example_manifest_def)
  from storeManifest_read_back[OF fk stored read] obtain manifest rows where
    "found = Some (manifest, rows)" "m_delivery_count manifest = length rows"
    "map d_delivery_order rows = [1 ..< Suc (length rows)]"
    "map d_raw_delivery_data rows = two_deliveries"
    unfolding ds by blast
  moreover from this have "length rows = 2"
    by (metis length_map two_deliveries_def length_Cons list.size(3) One_nat_def Suc_1)
  ultimately show ?thesis using fk id f
    by (simp add: upt_conv_Cons del: upt_Suc)
qed


subsection \<open>Looking a manifest up\<close>

lemma sort_key_head_least:
  assumes "sort_key f xs = y # ys" and "x \<in> set xs"
  shows "f y \<le> f x"
proof -
  have "sorted (map f (sort_key f xs))" by (rule sorted_sort_key)
  with assms(1) have "\<forall>z \<in> set ys. f y \<le> f z" by simp
  moreover from assms have "x = y \<or> x \<in> set ys"
    by (metis set_sort set_ConsD)
  ultimately show ?thesis by auto
qed

lemma newest_by_ref:
  assumes "take 1 (sort_key (\<lambda>m. - m_created_at m) (filter (\<lambda>m. m_manifest_id m = ref) ms)) = m # rest"
  shows "m \<in> set ms \<and> m_manifest_id m = ref \<and>
         (\<forall>m' \<in> set ms. m_manifest_id m' = ref \<longrightarrow> m_created_at m' \<le> m_created_at m)"
proof -
  let ?xs = "filter (\<lambda>m. m_manifest_id m = ref) ms"
  from assms obtain ys where s: "sort_key (\<lambda>m. - m_created_at m) ?xs = m # ys"
    by (cases "sort_key (\<lambda>m. - m_created_at m) ?xs") auto
  then have "m \<in> set ?xs" by (metis list.set_intros(1) set_sort)
  moreover have "\<forall>m' \<in> set ?xs. m_created_at m' \<le> m_created_at m"
    using sort_key_head_least[OF s] by fastforce
  ultimately show ?thesis by auto
qed

lemma manifest_with_deliveries_absent:
  assumes "sel (store w) = []"
  shows "fst (respond (manifest_with_deliveries w sel)) =
           (if fault w (calls w) = None \<and> fault w (Suc (calls w)) = None then Not_found_404
            else Server_error_500)"
  using assms
  by (auto simp: manifest_with_deliveries_def respond_def pool_connect_def client_query_def fails_def
                 tick_def client_release_def
           split: option.splits)

lemma manifest_with_deliveries_found:
  assumes "sel (store w) = m # rest"
  shows "fst (respond (manifest_with_deliveries w sel)) =
           (if fault w (calls w) = None \<and> fault w (Suc (calls w)) = None \<and>
               fault w (Suc (Suc (calls w))) = None
            then Ok_manifest (m, select_deliveries (store w) (m_id m))
            else Server_error_500)"
  using assms
  by (auto simp: manifest_with_deliveries_def respond_def pool_connect_def client_query_def fails_def
                 tick_def client_release_def
           split: option.splits)

text \<open>
  C8. The route chooses the lookup from the shape of the string alone, whatever the
  database holds: a string of length 36 that contains a hyphen goes to
  \<open>getManifestById\<close>, any other string to \<open>getManifestByRef\<close>. A manifest found
  by reference has that reference and the latest creation time among the manifests
  with it, and comes with its deliveries in delivery order. When no manifest has the
  id (or the reference), the answer is 404, unless one of the two driver calls made
  (connect, query) throws, which is answered with 500. When a string of the shape of
  an id is the id of a stored manifest, the answer is a stored manifest with that id
  and its deliveries; when a string of another shape is the reference of a stored
  manifest, the answer is a stored manifest with that reference, created no earlier
  than any other manifest with it, and its deliveries; in both cases unless one of
  the three driver calls made (connect, two queries) throws, which is answered
  with 500.
\<close>

theorem manifest_lookup_dispatch:
  "get_manifest_route w manifestId =
     respond (if length manifestId = 36 \<and> CHR ''-'' \<in> set manifestId then getManifestById w manifestId
              else getManifestByRef w manifestId) \<and>
   (getManifestByRef w manifestId = (Inr (Some (manifest, rows)), w') \<longrightarrow>
      manifest \<in> set (t_manifests (store w)) \<and> m_manifest_id manifest = manifestId \<and>
      (\<forall>m \<in> set (t_manifests (store w)).
         m_manifest_id m = manifestId \<longrightarrow> m_created_at m \<le> m_created_at manifest) \<and>
      rows = select_deliveries (store w) (m_id manifest)) \<and>
   ((if looks_like_uuid manifestId then \<forall>m \<in> set (t_manifests (store w)). m_id m \<noteq> manifestId
     else \<forall>m \<in> set (t_manifests (store w)). m_manifest_id m \<noteq> manifestId) \<longrightarrow>
      fst (get_manifest_route w manifestId) =
        (if fault w (calls w) = None \<and> fault w (Suc (calls w)) = None then Not_found_404
         else Server_error_500)) \<and>
   (looks_like_uuid manifestId \<and> (\<exists>m \<in> set (t_manifests (store w)). m_id m = manifestId) \<longrightarrow>
      (if fault w (calls w) = None \<and> fault w (Suc (calls w)) = None \<and> fault w (Suc (Suc (calls w))) = None
       then \<exists>m. fst (get_manifest_route w manifestId)
                   = Ok_manifest (m, select_deliveries (store w) manifestId) \<and>
                m \<in> set (t_manifests (store w)) \<and> m_id m = manifestId
       else fst (get_manifest_route w manifestId) = Server_error_500)) \<and>
   (\<not> looks_like_uuid manifestId \<and> (\<exists>m \<in> set (t_manifests (store w)). m_manifest_id m = manifestId) \<longrightarrow>
      (if fault w (calls w) = None \<and> fault w (Suc (calls w)) = None \<and> fault w (Suc (Suc (calls w))) = None
       then \<exists>m. fst (get_manifest_route w manifestId)
                   = Ok_manifest (m, select_deliveries (store w) (m_id m)) \<and>
                m \<in> set (t_manifests (store w)) \<and> m_manifest_id m = manifestId \<and>
                (\<forall>m' \<in> set (t_manifests (store w)).
                   m_manifest_id m' = manifestId \<longrightarrow> m_created_at m' \<le> m_created_at m)
       else fst (get_manifest_route w manifestId) = Server_error_500))"
proof (intro conjI impI)
  show "get_manifest_route w manifestId =
     respond (if length manifestId = 36 \<and> CHR ''-'' \<in> set manifestId then getManifestById w manifestId
              else getManifestByRef w manifestId)"
    by (simp add: get_manifest_route_def looks_like_uuid_def)
next
  assume r: "getManifestByRef w manifestId = (Inr (Some (manifest, rows)), w')"
  let ?sel = "\<lambda>t. take 1 (sort_key (\<lambda>m. - m_created_at m)
                     (filter (\<lambda>m. m_manifest_id m = manifestId) (t_manifests t)))"
  from manifest_with_deliveries_result[OF r[unfolded getManifestByRef_def]]
  have found: "Some (manifest, rows) =
      (case ?sel (store w) of [] \<Rightarrow> None | m # _ \<Rightarrow> Some (m, select_deliveries (store w) (m_id m)))"
    by simp
  then obtain rest where sel: "?sel (store w) = manifest # rest"
    and rows: "rows = select_deliveries (store w) (m_id manifest)"
    by (cases "?sel (store w)") auto
  from newest_by_ref[OF sel] rows
  show "manifest \<in> set (t_manifests (store w))"
    and "m_manifest_id manifest = manifestId"
    and "\<forall>m \<in> set (t_manifests (store w)).
         m_manifest_id m = manifestId \<longrightarrow> m_created_at m \<le> m_created_at manifest"
    and "rows = select_deliveries (store w) (m_id manifest)"
    by auto
next
  assume absent: "if looks_like_uuid manifestId then \<forall>m \<in> set (t_manifests (store w)). m_id m \<noteq> manifestId
     else \<forall>m \<in> set (t_manifests (store w)). m_manifest_id m \<noteq> manifestId"
  show "fst (get_manifest_route w manifestId) =
        (if fault w (calls w) = None \<and> fault w (Suc (calls w)) = None then Not_found_404
         else Server_error_500)"
  proof (cases "looks_like_uuid manifestId")
    case True
    with absent have "filter (\<lambda>m. m_id m = manifestId) (t_manifests (store w)) = []"
      by (auto simp: filter_empty_conv)
    with True show ?thesis
      by (simp add: get_manifest_route_def getManifestById_def manifest_with_deliveries_absent)
  next
    case False
    with absent have "filter (\<lambda>m. m_manifest_id m = manifestId) (t_manifests (store w)) = []"
      by (auto simp: filter_empty_conv)
    with False show ?thesis
      by (simp add: get_manifest_route_def getManifestByRef_def manifest_with_deliveries_absent)
  qed
next
  assume h: "looks_like_uuid manifestId \<and> (\<exists>m \<in> set (t_manifests (store w)). m_id m = manifestId)"
  then obtain m rest where sel: "filter (\<lambda>m. m_id m = manifestId) (t_manifests (store w)) = m # rest"
    by (cases "filter (\<lambda>m. m_id m = manifestId) (t_manifests (store w))") (auto simp: filter_empty_conv)
  then have "m \<in> set (filter (\<lambda>m. m_id m = manifestId) (t_manifests (store w)))"
    by simp
  then have m: "m \<in> set (t_manifests (store w))" "m_id m = manifestId" by simp_all
  have "fst (get_manifest_route w manifestId) =
      (if fault w (calls w) = None \<and> fault w (Suc (calls w)) = None \<and> fault w (Suc (Suc (calls w))) = None
       then Ok_manifest (m, select_deliveries (store w) (m_id m)) else Server_error_500)"
    using h manifest_with_deliveries_found[of "\<lambda>t. filter (\<lambda>m. m_id m = manifestId) (t_manifests t)" w m rest] sel
    by (simp add: get_manifest_route_def getManifestById_def)
  with m show "if fault w (calls w) = None \<and> fault w (Suc (calls w)) = None \<and> fault w (Suc (Suc (calls w))) = None
       then \<exists>m. fst (get_manifest_route w manifestId)
                   = Ok_manifest (m, select_deliveries (store w) manifestId) \<and>
                m \<in> set (t_manifests (store w)) \<and> m_id m = manifestId
       else fst (get_manifest_route w manifestId) = Server_error_500"
    by auto
next
  assume h: "\<not> looks_like_uuid manifestId \<and> (\<exists>m \<in> set (t_manifests (store w)). m_manifest_id m = manifestId)"
  let ?xs = "filter (\<lambda>m. m_manifest_id m = manifestId) (t_manifests (store w))"
  let ?sel = "\<lambda>t. take 1 (sort_key (\<lambda>m. - m_created_at m)
                     (filter (\<lambda>m. m_manifest_id m = manifestId) (t_manifests t)))"
  from h have "set (sort_key (\<lambda>m. - m_created_at m) ?xs) \<noteq> {}"
    by (auto simp: filter_empty_conv)
  then obtain m ys where "sort_key (\<lambda>m. - m_created_at m) ?xs = m # ys"
    by (cases "sort_key (\<lambda>m. - m_created_at m) ?xs") auto
  then have sel: "?sel (store w) = m # []" by simp
  note m = newest_by_ref[OF sel]
  have "fst (get_manifest_route w manifestId) =
      (if fault w (calls w) = None \<and> fault w (Suc (calls w)) = None \<and> fault w (Suc (Suc (calls w))) = None
       then Ok_manifest (m, select_deliveries (store w) (m_id m)) else Server_error_500)"
    using h manifest_with_deliveries_found[of ?sel w m "[]"] sel
    by (simp add: get_manifest_route_def getManifestByRef_def)
  with m show "if fault w (calls w) = None \<and> fault w (Suc (calls w)) = None \<and> fault w (Suc (Suc (calls w))) = None
       then \<exists>m. fst (get_manifest_route w manifestId)
                   = Ok_manifest (m, select_deliveries (store w) (m_id m)) \<and>
                m \<in> set (t_manifests (store w)) \<and> m_manifest_id m = manifestId \<and>
                (\<forall>m' \<in> set (t_manifests (store w)).
                   m_manifest_id m' = manifestId \<longrightarrow> m_created_at m' \<le> m_created_at m)
       else fst (get_manifest_route w manifestId) = Server_error_500"
    by auto
qed

lemma example_uuid_shape: "i < 10 \<Longrightarrow> looks_like_uuid (example_uuid i)"
  by (simp add: looks_like_uuid_def example_uuid_def)

text \<open>
  With two manifests of reference \<open>M1001\<close> stored, that reference is looked up by
  reference and the route answers with the one created last; the id of the first is
  looked up by id and the route answers with the first; an unknown id of the shape
  of a generated id is looked up by id and answered with 404.
\<close>

theorem manifest_lookup_dispatch_witness:
  "get_manifest_route example_two_manifests ''M1001''
     = respond (getManifestByRef example_two_manifests ''M1001'') \<and>
   fst (getManifestByRef example_two_manifests ''M1001'')
     = Inr (Some (manifest_params 20 (example_manifest JNull []) example_info (example_uuid 2), [])) \<and>
   list_all (\<lambda>m. m_created_at m \<le> 20)
     (filter (\<lambda>m. m_manifest_id m = ''M1001'') (t_manifests (store example_two_manifests))) \<and>
   fst (get_manifest_route example_two_manifests (example_uuid 7)) = Not_found_404 \<and>
   fst (get_manifest_route example_two_manifests ''M1001'')
     = Ok_manifest (manifest_params 20 (example_manifest JNull []) example_info (example_uuid 2), []) \<and>
   fst (get_manifest_route example_two_manifests (example_uuid 1))
     = Ok_manifest (manifest_params 10 (example_manifest JNull []) example_info (example_uuid 1), [])"
proof -
  let ?w = example_two_manifests
  let ?m1 = "manifest_params 10 (example_manifest JNull []) example_info (example_uuid 1)"
  let ?m = "manifest_params 20 (example_manifest JNull []) example_info (example_uuid 2)"
  have run: "fst (getManifestByRef ?w ''M1001'') = Inr (Some (?m, []))"
    by (simp add: getManifestByRef_def manifest_with_deliveries_def pool_connect_def client_query_def
                  client_release_def fails_def tick_def example_two_manifests_def example_env_def
                  empty_tables_def manifest_params_def example_manifest_def or_empty_def
                  select_deliveries_def Let_def)
  then have byref: "getManifestByRef ?w ''M1001'' = (Inr (Some (?m, [])), snd (getManifestByRef ?w ''M1001''))"
    by (metis prod.collapse)
  have shape: "looks_like_uuid (example_uuid 7)" "looks_like_uuid (example_uuid 1)"
    by (simp_all add: example_uuid_shape)
  have noshape: "\<not> looks_like_uuid ''M1001''"
    by (simp add: looks_like_uuid_def)
  have ms: "t_manifests (store ?w) = [?m1, ?m]"
    by (simp add: example_two_manifests_def)
  have ids: "m_id ?m1 = example_uuid 1" "m_id ?m = example_uuid 2" "example_uuid 2 \<noteq> example_uuid 1"
    "example_uuid 1 \<noteq> example_uuid 7" "example_uuid 2 \<noteq> example_uuid 7"
    by (simp_all add: manifest_params_def example_uuid_def Let_def)
  have refs: "m_manifest_id ?m1 = ''M1001''" "m_manifest_id ?m = ''M1001''"
    by (simp_all add: manifest_params_def example_manifest_def or_empty_def Let_def)
  have created: "m_created_at ?m = 20" "m_created_at ?m1 = 10"
    by (simp_all add: manifest_params_def Let_def)
  have none: "select_deliveries (store ?w) i = []" for i
    by (simp add: select_deliveries_def example_two_manifests_def empty_tables_def)
  have nofault: "fault ?w (calls ?w) = None" "fault ?w (Suc (calls ?w)) = None"
      "fault ?w (Suc (Suc (calls ?w))) = None"
    by (simp_all add: example_two_manifests_def example_env_def)
  from manifest_lookup_dispatch[of ?w "''M1001''" ?m "[]" "snd (getManifestByRef ?w ''M1001'')"] byref created
  have 1: "get_manifest_route ?w ''M1001'' = respond (getManifestByRef ?w ''M1001'')"
   and 2: "\<forall>m \<in> set (t_manifests (store ?w)). m_manifest_id m = ''M1001'' \<longrightarrow> m_created_at m \<le> 20"
    by simp_all
  from manifest_lookup_dispatch[of ?w "example_uuid 7", THEN conjunct2, THEN conjunct2, THEN conjunct1]
    shape nofault ms ids
  have 3: "fst (get_manifest_route ?w (example_uuid 7)) = Not_found_404"
    by simp
  from 2 have 4: "list_all (\<lambda>m. m_created_at m \<le> 20)
     (filter (\<lambda>m. m_manifest_id m = ''M1001'') (t_manifests (store ?w)))"
    by (simp add: list_all_iff)
  from manifest_lookup_dispatch[of ?w "''M1001''", THEN conjunct2, THEN conjunct2, THEN conjunct2,
      THEN conjunct2] noshape nofault
  have "\<exists>m. fst (get_manifest_route ?w ''M1001'') = Ok_manifest (m, select_deliveries (store ?w) (m_id m)) \<and>
            m \<in> set (t_manifests (store ?w)) \<and> m_manifest_id m = ''M1001'' \<and>
            (\<forall>m' \<in> set (t_manifests (store ?w)).
               m_manifest_id m' = ''M1001'' \<longrightarrow> m_created_at m' \<le> m_created_at m)"
    by (simp add: ms refs)
  then obtain m where m: "fst (get_manifest_route ?w ''M1001'') = Ok_manifest (m, [])"
      "m = ?m1 \<or> m = ?m" "m_created_at ?m \<le> m_created_at m"
    by (auto simp: ms refs none)
  from m(2,3) created have "m = ?m" by auto
  with m(1) have 5: "fst (get_manifest_route ?w ''M1001'') = Ok_manifest (?m, [])" by simp
  from manifest_lookup_dispatch[of ?w "example_uuid 1", THEN conjunct2, THEN conjunct2, THEN conjunct2,
      THEN conjunct1] shape nofault
  have "\<exists>m. fst (get_manifest_route ?w (example_uuid 1))
                = Ok_manifest (m, select_deliveries (store ?w) (example_uuid 1)) \<and>
            m \<in> set (t_manifests (store ?w)) \<and> m_id m = example_uuid 1"
    by (simp add: ms ids del: One_nat_def)
  then obtain m' where m': "fst (get_manifest_route ?w (example_uuid 1)) = Ok_manifest (m', [])"
      "m' = ?m1 \<or> m' = ?m" "m_id m' = example_uuid 1"
    by (auto simp: ms none)
  from m'(2,3) ids have "m' = ?m1" by auto
  with m'(1) have 6: "fst (get_manifest_route ?w (example_uuid 1)) = Ok_manifest (?m1, [])" by simp
  from 1 run 4 3 5 6 show ?thesis by simp
qed


subsection \<open>Numeric fields of a delivery\<close>

text \<open>A missing, null, empty or zero field is bound as 0.\<close>

lemma zero_to_string: "int_to_string 0 = ''0''"
  by code_simp

lemma defaults_to_zero:
  "\<not> truthy v \<Longrightarrow> parseFloat (js_or v (JInt 0)) = Fin 0 \<and> parseInt (js_or v (JInt 0)) = Fin 0"
  by (simp add: js_or_def parseFloat_def parseInt_def parseFloat_string_def parseInt_string_def
                zero_to_string lex_sign_def lex_decimal_def lex_exponent_def is_space_def is_digit_def
                is_radix_digit_def digit_of_def code_def scale10_def Let_def)

text \<open>
  C4. A delivery whose \<open>est_weight_kg\<close> and \<open>total_cases\<close> are non-numeric strings:
  \<open>storeDelivery\<close> binds \<open>NaN\<close> to both columns, not 0, and that is what the row
  holds when the INSERT goes through.
\<close>

theorem storeDelivery_non_numeric:
  "map (\<lambda>row. (d_est_weight_kg row, d_total_cases row))
       (t_deliveries (store (snd (storeDelivery (example_env None) (example_uuid 1)
           (example_delivery ''SW1A 1AA'' (JStr ''heavy'') (JStr ''n/a'')) 1))))
     = [(NaN, NaN)]"
  by (simp add: storeDelivery_def fails_def tick_def view_def write_view_def example_env_def empty_tables_def
                delivery_params_def example_delivery_def js_or_def parseFloat_def parseInt_def
                parseFloat_string_def parseInt_string_def lex_sign_def lex_decimal_def is_space_def
                is_digit_def is_radix_digit_def digit_of_def code_def Let_def)

subsection \<open>The planned delivery date\<close>

text \<open>
  A non-empty string with fewer than two slashes has no year part: the Date built from
  it is invalid, and no error is thrown for the \<open>catch\<close> to handle.
\<close>

lemma date_without_year:
  assumes "s \<noteq> []" and "length (split_on CHR ''/'' s) < 3"
  shows "parse_planned_delivery_date (JStr s) = (Some InvalidDate, False)"
  using assms by (simp add: parse_planned_delivery_date_def element_def new_Date_def Let_def)

text \<open>
  C5. A manifest whose \<open>planned_delivery_date\<close> is the string \<open>not a date\<close>:
  \<open>storeManifest\<close> binds an invalid Date to the column, not \<open>null\<close>, and that is
  what the row holds when the INSERT goes through.
\<close>

theorem storeManifest_unparsable_date:
  "fst (storeManifest (example_env None) (example_manifest (JStr ''not a date'') []) example_info)
     = Inr (example_uuid 2) \<and>
   map m_planned_delivery_date
     (t_manifests (store (snd (storeManifest (example_env None) (example_manifest (JStr ''not a date'') [])
                                 example_info))))
     = [Some InvalidDate]"
proof -
  have "parse_planned_delivery_date (JStr ''not a date'') = (Some InvalidDate, False)"
    by (rule date_without_year) simp_all
  then show ?thesis
    by (simp add: run_storeManifest example_env_def example_manifest_def empty_tables_def
                  manifest_params_def numeral_2_eq_2)
qed

subsection \<open>The postcode filter of searchDeliveries\<close>

text \<open>
  For a filter without LIKE operators the condition is a prefix match up to length 4
  and equality above, as in the examples of the spec.
\<close>

lemma sql_like_percent [simp]: "sql_like ''%'' s"
  by (induction s) auto

lemma sql_like_prefix:
  "like_plain p \<Longrightarrow> sql_like (p @ ''%'') s = starts_with p s"
proof (induction p arbitrary: s)
  case Nil
  then show ?case by (simp del: sql_like.simps)
next
  case (Cons c p)
  then show ?case by (cases s) (auto simp: like_plain_def)
qed

lemma postcode_condition_plain:
  "like_plain p \<Longrightarrow>
     postcode_condition p row = (if length p \<le> 4 then starts_with p row else row = p)"
  by (simp add: postcode_condition_def sql_like_prefix)

lemma postcode_examples:
  "postcode_condition ''SW1'' ''SW1A 1AA''" "postcode_condition ''SW1'' ''SW1B 2BB''"
  "\<not> postcode_condition ''SW1'' ''SW2 1AA''"
  "postcode_condition ''SW1A 1AA'' row = (row = ''SW1A 1AA'')"
  by (simp_all add: postcode_condition_def)

text \<open>
  C7. The postcode filter \<open>SW_\<close> has length 3, so it is used as the LIKE pattern
  \<open>SW_%\<close>, where \<open>_\<close> stands for any character: the search returns the delivery
  with postcode \<open>SW2 1AA\<close>, which does not start with \<open>SW_\<close>.
\<close>

theorem searchDeliveries_wildcard:
  "fst (searchDeliveries example_stored (postcode_filter ''SW_''))
     = Inr (map (\<lambda>row. (row, hd (t_manifests (store example_stored))))
                (t_deliveries (store example_stored))) \<and>
   map d_postcode (t_deliveries (store example_stored)) = [''SW1A 1AA'', ''SW2 1AA''] \<and>
   \<not> starts_with ''SW_'' ''SW2 1AA''"
  by (simp add: searchDeliveries_def pool_connect_def client_query_def client_release_def fails_def tick_def
                select_deliveries_with_manifest_def deliveries_with_manifest_def where_clause_def
                condition_if_present_def postcode_condition_def number_or_def postcode_filter_def
                example_stored_def example_env_def empty_tables_def two_deliveries_def example_delivery_def
                delivery_params_def manifest_params_def or_empty_def date_desc_key_def null_first_key_def
                Let_def)


subsection \<open>Statistics\<close>

lemma getStatistics_result:
  assumes "getStatistics w = (Inr stats, w')"
  shows "stats = \<lparr>manifests = select_manifest_stats (store w),
                  recent_activity = select_recent_stats (store w) (now w),
                  batch_processing = select_batch_stats (store w)\<rparr>"
  using assms
  by (auto simp: getStatistics_def pool_connect_def client_query_def fails_def tick_def
           split: option.splits)

lemma getStatistics_without_fault:
  assumes "fault w = (\<lambda>_. None)"
  shows "\<exists>stats. fst (getStatistics w) = Inr stats"
  using assms
  by (simp add: getStatistics_def pool_connect_def client_query_def fails_def tick_def)

text \<open>
  C9, as stated, fails: with two manifests stored, both without a planned delivery
  date and of one driver, \<open>getStatistics\<close> reports no manifest and no driver.
\<close>

theorem getStatistics_counts_all_manifests_counterexample:
  "fst (getStatistics example_two_manifests) =
     Inr \<lparr>manifests = \<lparr>total_manifests = 0, unique_dates = 0, unique_drivers = 0,
                        total_deliveries = None, avg_deliveries_per_manifest = None\<rparr>,
          recent_activity = \<lparr>recent_manifests = 0, last_processed = None\<rparr>,
          batch_processing = \<lparr>total_batch_jobs = 0, completed_jobs = 0, failed_jobs = 0,
                               processing_jobs = 0\<rparr>\<rparr> \<and>
   length (t_manifests (store example_two_manifests)) = 2 \<and>
   length (remdups (map m_vehicle_driver (t_manifests (store example_two_manifests)))) = 1"
  by (simp add: getStatistics_def pool_connect_def client_query_def client_release_def fails_def tick_def
                select_manifest_stats_def select_recent_stats_def select_batch_stats_def dated_manifests_def
                example_two_manifests_def example_env_def empty_tables_def manifest_params_def
                example_manifest_def parse_planned_delivery_date_def or_empty_def Let_def)

text \<open>
  C9, amended. The statistics that \<open>getStatistics\<close> returns: the number of manifests,
  of distinct planned dates and of distinct drivers and the total and average number
  of deliveries per manifest are all taken over the manifests with a planned delivery
  date only (total and average are null when there is none); then the number of
  manifests processed in the last 24 hours, and the numbers of batch jobs in all and
  by status.
\<close>

theorem getStatistics_aggregates:
  assumes "getStatistics w = (Inr stats, w')"
  shows "total_manifests (manifests stats) =
           length (filter (\<lambda>m. m_planned_delivery_date m \<noteq> None) (t_manifests (store w))) \<and>
         unique_dates (manifests stats) =
           card (m_planned_delivery_date ` {m \<in> set (t_manifests (store w)). m_planned_delivery_date m \<noteq> None}) \<and>
         unique_drivers (manifests stats) =
           card (m_vehicle_driver ` {m \<in> set (t_manifests (store w)). m_planned_delivery_date m \<noteq> None}) \<and>
         total_deliveries (manifests stats) =
           (if total_manifests (manifests stats) = 0 then None
            else Some (sum_list (map m_delivery_count
                   (filter (\<lambda>m. m_planned_delivery_date m \<noteq> None) (t_manifests (store w)))))) \<and>
         avg_deliveries_per_manifest (manifests stats) =
           (case total_deliveries (manifests stats) of
              None \<Rightarrow> None
            | Some n \<Rightarrow> Some (of_nat n / of_nat (total_manifests (manifests stats)))) \<and>
         recent_manifests (recent_activity stats) =
           length (filter (\<lambda>m. now w - 86400 < m_processed_at m) (t_manifests (store w))) \<and>
         total_batch_jobs (batch_processing stats) = length (t_batch_jobs (store w)) \<and>
         completed_jobs (batch_processing stats) =
           length (filter (\<lambda>j. bj_status j = ''completed'') (t_batch_jobs (store w))) \<and>
         failed_jobs (batch_processing stats) =
           length (filter (\<lambda>j. bj_status j = ''failed'') (t_batch_jobs (store w))) \<and>
         processing_jobs (batch_processing stats) =
           length (filter (\<lambda>j. bj_status j = ''processing'') (t_batch_jobs (store w)))"
proof -
  define ds where "ds = filter (\<lambda>m. m_planned_delivery_date m \<noteq> None) (t_manifests (store w))"
  have set_ds: "{m \<in> set (t_manifests (store w)). m_planned_delivery_date m \<noteq> None} = set ds"
    unfolding ds_def by (simp only: set_filter)
  have m: "manifests stats =
      \<lparr>total_manifests = length ds,
       unique_dates = length (remdups (map m_planned_delivery_date ds)),
       unique_drivers = length (remdups (map m_vehicle_driver ds)),
       total_deliveries = (if ds = [] then None else Some (sum_list (map m_delivery_count ds))),
       avg_deliveries_per_manifest =
         (if ds = [] then None else Some (of_nat (sum_list (map m_delivery_count ds)) / of_nat (length ds)))\<rparr>"
    unfolding getStatistics_result[OF assms] ds_def
    by (simp add: select_manifest_stats_def dated_manifests_def Let_def del: not_None_eq)
  have r: "recent_activity stats = select_recent_stats (store w) (now w)"
   and b: "batch_processing stats = select_batch_stats (store w)"
    unfolding getStatistics_result[OF assms] by simp_all
  have 1: "total_manifests (manifests stats) = length ds"
   and 2: "unique_dates (manifests stats) = card (m_planned_delivery_date ` set ds)"
   and 3: "unique_drivers (manifests stats) = card (m_vehicle_driver ` set ds)"
   and 4: "total_deliveries (manifests stats) =
             (if total_manifests (manifests stats) = 0 then None
              else Some (sum_list (map m_delivery_count ds)))"
   and 5: "avg_deliveries_per_manifest (manifests stats) =
           (case total_deliveries (manifests stats) of
              None \<Rightarrow> None
            | Some n \<Rightarrow> Some (of_nat n / of_nat (total_manifests (manifests stats))))"
    unfolding m by (simp_all add: length_remdups_card_conv)
  have 6: "recent_manifests (recent_activity stats) =
           length (filter (\<lambda>m. now w - 86400 < m_processed_at m) (t_manifests (store w)))"
    unfolding r by (simp add: select_recent_stats_def Let_def)
  have 7: "total_batch_jobs (batch_processing stats) = length (t_batch_jobs (store w))"
      "completed_jobs (batch_processing stats) =
           length (filter (\<lambda>j. bj_status j = ''completed'') (t_batch_jobs (store w)))"
      "failed_jobs (batch_processing stats) =
           length (filter (\<lambda>j. bj_status j = ''failed'') (t_batch_jobs (store w)))"
      "processing_jobs (batch_processing stats) =
           length (filter (\<lambda>j. bj_status j = ''processing'') (t_batch_jobs (store w)))"
    unfolding b by (simp_all add: select_batch_stats_def)
  show ?thesis
    unfolding set_ds using 1 2 3 4 5 6 7 unfolding ds_def by (intro conjI)
qed

text \<open>The statistics of the database with one dated manifest of two deliveries.\<close>

theorem getStatistics_aggregates_witness:
  "\<not> isl (fst (getStatistics example_stored)) \<and>
   total_manifests (manifests (projr (fst (getStatistics example_stored)))) = 1 \<and>
   total_deliveries (manifests (projr (fst (getStatistics example_stored)))) = Some 2 \<and>
   avg_deliveries_per_manifest (manifests (projr (fst (getStatistics example_stored)))) = Some 2 \<and>
   recent_manifests (recent_activity (projr (fst (getStatistics example_stored)))) = 0"
proof -
  let ?w = example_stored
  have "fault ?w = (\<lambda>_. None)"
    by (simp add: example_stored_def example_env_def)
  from getStatistics_without_fault[OF this] obtain stats where s: "fst (getStatistics ?w) = Inr stats"
    by blast
  then have run: "getStatistics ?w = (Inr stats, snd (getStatistics ?w))"
    by (metis prod.collapse)
  have rows: "t_manifests (store ?w) =
      [manifest_params 10 (example_manifest (JStr ''15/01/2024'') two_deliveries) example_info (example_uuid 1)]"
    by (simp add: example_stored_def)
  have dated: "m_planned_delivery_date
      (manifest_params 10 (example_manifest (JStr ''15/01/2024'') two_deliveries) example_info (example_uuid 1))
        \<noteq> None"
    by (simp add: manifest_params_def parse_planned_delivery_date_def example_manifest_def Let_def)
  have count: "m_delivery_count
      (manifest_params 10 (example_manifest (JStr ''15/01/2024'') two_deliveries) example_info (example_uuid 1))
        = 2"
    by (simp add: manifest_params_def example_manifest_def deliveries_or_empty_def two_deliveries_def Let_def)
  have at: "m_processed_at
      (manifest_params 10 (example_manifest (JStr ''15/01/2024'') two_deliveries) example_info (example_uuid 1))
        = 10" "now ?w = 1700000000"
    by (simp_all add: manifest_params_def example_stored_def example_env_def Let_def)
  from getStatistics_aggregates[OF run] show ?thesis
    unfolding s rows using dated count at by simp
qed


section \<open>Properties of the batch processor\<close>

subsection \<open>What one turn of the loop and the end of the batch change\<close>

lemma linkBatchManifest_effect:
  assumes "linkBatchManifest w jobId manifestId order = (r, w')"
  shows "same_env w w' \<and> t_batch_jobs (store w') = t_batch_jobs (store w) \<and>
         t_manifests (store w') = t_manifests (store w) \<and>
         t_deliveries (store w') = t_deliveries (store w)"
  using assms
  by (auto simp: linkBatchManifest_def pool_connect_def fails_def tick_def client_release_def same_env_def
           split: option.splits)

lemma store_and_link_effect:
  assumes "store_and_link w jobId order x info = (x', w')"
  shows "same_env w w' \<and> t_batch_jobs (store w') = t_batch_jobs (store w)"
proof -
  obtain r w1 where sm: "storeManifest w x info = (r, w1)" by force
  note eff = storeManifest_effect[OF sm]
  show ?thesis
  proof (cases r)
    case (Inl e)
    with sm assms eff show ?thesis
      by (auto simp: store_and_link_def log_line_def same_env_def)
  next
    case (Inr mid)
    obtain r2 w2 where lk: "linkBatchManifest w1 jobId mid (order + 1) = (r2, w2)" by force
    from linkBatchManifest_effect[OF lk] eff Inr have "same_env w w2"
      "t_batch_jobs (store w2) = t_batch_jobs (store w)"
      by (auto simp: same_env_def)
    with sm Inr lk assms show ?thesis
      by (cases r2) (auto simp: store_and_link_def log_line_def same_env_def)
  qed
qed

lemma store_and_link_failure:
  assumes "storeManifest w x info = (Inl e, w1)"
  shows "store_and_link w jobId order x info =
           (x\<lparr>database_error := Some e\<rparr>, log_line Error ''Failed to store manifest in database:'' w1)"
  using assms by (simp add: store_and_link_def)

lemma extract_and_store_effect:
  assumes "extract_and_store processPDF w jobId storeInDb order file = (r, w')"
  shows "same_env w w' \<and> t_batch_jobs (store w') = t_batch_jobs (store w) \<and>
         (isl r \<longleftrightarrow> isl (processPDF (f_path file))) \<and>
         (\<forall>message. processPDF (f_path file) = Inl message \<longrightarrow> r = Inl message \<and> w' = w)"
proof (cases "processPDF (f_path file)")
  case (Inl message)
  with assms show ?thesis by (auto simp: extract_and_store_def same_env_def)
next
  case (Inr extracted)
  show ?thesis
  proof (cases storeInDb)
    case False
    with Inr assms show ?thesis by (auto simp: extract_and_store_def same_env_def Let_def)
  next
    case True
    let ?info = "processing_metadata (now w) file extracted"
    obtain x w1 where sl: "store_and_link w jobId order (extracted\<lparr>processing_info := Some ?info\<rparr>) ?info = (x, w1)"
      by force
    with Inr True assms have "r = Inr x" "w' = w1"
      by (auto simp: extract_and_store_def Let_def)
    with store_and_link_effect[OF sl] Inr show ?thesis by simp
  qed
qed

lemma unlink_file_effect:
  "same_env (svc s) (svc (unlink_file file s)) \<and> store (svc (unlink_file file s)) = store (svc s) \<and>
   batchJobs (unlink_file file s) = batchJobs s"
  by (auto simp: unlink_file_def same_env_def log_line_def tick_def split: option.splits)

text \<open>The effect of one turn of the loop.\<close>

lemma process_file_effect:
  fixes processPDF :: "string \<Rightarrow> string + manifest_data" and jobId :: string and storeInDb :: bool
    and order :: nat and fl :: upload_file and st :: batch_state
  defines "st' \<equiv> process_file processPDF jobId storeInDb order fl st"
  shows "same_env (svc (bs_server st)) (svc (bs_server st'))"
    and "t_batch_jobs (store (svc (bs_server st'))) = t_batch_jobs (store (svc (bs_server st)))"
    and "batchJobs (bs_server st') = (batchJobs (bs_server st))(jobId \<mapsto> bs_job st')"
    and "processed_files (bs_job st') = processed_files (bs_job st) + 1"
    and "status (bs_job st') = status (bs_job st)"
    and "processPDF (f_path fl) = Inl message \<Longrightarrow>
           results (bs_job st') = results (bs_job st) \<and>
           errors (bs_job st') = errors (bs_job st) @
             [\<lparr>err_filename = originalname fl, err_error = message,
               err_timestamp = now (svc (bs_server st))\<rparr>] \<and>
           successfulFiles st' = successfulFiles st \<and> failedFiles st' = failedFiles st + 1"
    and "processPDF (f_path fl) = Inr extracted \<Longrightarrow>
           (\<exists>x. results (bs_job st') = results (bs_job st) @ [x]) \<and>
           errors (bs_job st') = errors (bs_job st) \<and>
           successfulFiles st' = successfulFiles st + 1 \<and> failedFiles st' = failedFiles st"
proof -
  obtain r w1 where es: "extract_and_store processPDF (svc (bs_server st)) jobId storeInDb order fl = (r, w1)"
    by force
  note eff = extract_and_store_effect[OF es]
  note ul = unlink_file_effect
  show "same_env (svc (bs_server st)) (svc (bs_server st'))"
    using eff ul[of "(bs_server st)\<lparr>svc := w1\<rparr>" fl]
          ul[of "(bs_server st)\<lparr>svc := log_line Error ''Error processing'' w1\<rparr>" fl]
    unfolding st'_def process_file_def Let_def es publish_def
    by (cases r) (auto simp: same_env_def log_line_def)
  show "t_batch_jobs (store (svc (bs_server st'))) = t_batch_jobs (store (svc (bs_server st)))"
    using eff ul[of "(bs_server st)\<lparr>svc := w1\<rparr>" fl]
          ul[of "(bs_server st)\<lparr>svc := log_line Error ''Error processing'' w1\<rparr>" fl]
    unfolding st'_def process_file_def Let_def es publish_def
    by (cases r) (auto simp: log_line_def)
  show "batchJobs (bs_server st') = (batchJobs (bs_server st))(jobId \<mapsto> bs_job st')"
    using ul[of "(bs_server st)\<lparr>svc := w1\<rparr>" fl]
          ul[of "(bs_server st)\<lparr>svc := log_line Error ''Error processing'' w1\<rparr>" fl]
    unfolding st'_def process_file_def Let_def es publish_def
    by (cases r) auto
  show "processed_files (bs_job st') = processed_files (bs_job st) + 1"
    unfolding st'_def process_file_def Let_def es publish_def
    by (cases r) auto
  show "status (bs_job st') = status (bs_job st)"
    unfolding st'_def process_file_def Let_def es publish_def
    by (cases r) auto
  show "processPDF (f_path fl) = Inl message \<Longrightarrow>
           results (bs_job st') = results (bs_job st) \<and>
           errors (bs_job st') = errors (bs_job st) @
             [\<lparr>err_filename = originalname fl, err_error = message,
               err_timestamp = now (svc (bs_server st))\<rparr>] \<and>
           successfulFiles st' = successfulFiles st \<and> failedFiles st' = failedFiles st + 1"
    using eff
    unfolding st'_def process_file_def Let_def es publish_def
    by (auto simp: same_env_def)
  show "processPDF (f_path fl) = Inr extracted \<Longrightarrow>
           (\<exists>x. results (bs_job st') = results (bs_job st) @ [x]) \<and>
           errors (bs_job st') = errors (bs_job st) \<and>
           successfulFiles st' = successfulFiles st + 1 \<and> failedFiles st' = failedFiles st"
    using eff
    unfolding st'_def process_file_def Let_def es publish_def
    by (cases r) auto
qed

lemma completed_updates_job:
  "completed_updates n (publish jobId (st\<lparr>bs_job := (bs_job st)\<lparr>status := a, completed_at := b\<rparr>\<rparr>))
     = completed_updates n st"
  by (simp add: completed_updates_def publish_def)

lemma updateBatchJob_completed:
  "t_batch_jobs (store (fst (snd (updateBatchJob w jobId (completed_updates n st)), ()))) =
     (if fault w (calls w) = None \<and> fault w (Suc (calls w)) = None
      then map (\<lambda>row. if bj_job_id row = jobId then apply_updates (now w) (completed_updates n st) row else row)
               (t_batch_jobs (store w))
      else t_batch_jobs (store w))"
  by (auto simp: updateBatchJob_def pool_connect_def fails_def tick_def client_release_def
                 set_clause_empty_def completed_updates_def
           split: option.splits)

lemma finish_batch_effect:
  fixes st :: batch_state
  defines "w \<equiv> svc (bs_server st)"
  shows "bs_job (finish_batch jobId n storeInDb st) =
           (bs_job st)\<lparr>status := ''completed'', completed_at := Some (now w)\<rparr>"
    and "batchJobs (bs_server (finish_batch jobId n storeInDb st)) =
           (batchJobs (bs_server st))(jobId \<mapsto> bs_job (finish_batch jobId n storeInDb st))"
    and "t_batch_jobs (store (svc (bs_server (finish_batch jobId n storeInDb st)))) =
           (if storeInDb \<and> fault w (calls w) = None \<and> fault w (Suc (calls w)) = None
            then map (\<lambda>row. if bj_job_id row = jobId
                               then apply_updates (now w) (completed_updates n st) row else row)
                     (t_batch_jobs (store w))
            else t_batch_jobs (store w))"
proof -
  show "bs_job (finish_batch jobId n storeInDb st) =
           (bs_job st)\<lparr>status := ''completed'', completed_at := Some (now w)\<rparr>"
    by (simp add: finish_batch_def publish_def w_def Let_def)
  show "batchJobs (bs_server (finish_batch jobId n storeInDb st)) =
           (batchJobs (bs_server st))(jobId \<mapsto> bs_job (finish_batch jobId n storeInDb st))"
    by (simp add: finish_batch_def publish_def Let_def)
  have upd: "t_batch_jobs (store (snd (updateBatchJob w jobId (completed_updates n st)))) =
     (if fault w (calls w) = None \<and> fault w (Suc (calls w)) = None
      then map (\<lambda>row. if bj_job_id row = jobId then apply_updates (now w) (completed_updates n st) row else row)
               (t_batch_jobs (store w))
      else t_batch_jobs (store w))"
    using updateBatchJob_completed[of w jobId n st] by simp
  obtain r w1 where u: "updateBatchJob w jobId (completed_updates n st) = (r, w1)" by force
  with upd have w1: "t_batch_jobs (store w1) =
     (if fault w (calls w) = None \<and> fault w (Suc (calls w)) = None
      then map (\<lambda>row. if bj_job_id row = jobId then apply_updates (now w) (completed_updates n st) row else row)
               (t_batch_jobs (store w))
      else t_batch_jobs (store w))"
    by simp
  show "t_batch_jobs (store (svc (bs_server (finish_batch jobId n storeInDb st)))) =
           (if storeInDb \<and> fault w (calls w) = None \<and> fault w (Suc (calls w)) = None
            then map (\<lambda>row. if bj_job_id row = jobId
                               then apply_updates (now w) (completed_updates n st) row else row)
                     (t_batch_jobs (store w))
            else t_batch_jobs (store w))"
  proof (cases storeInDb)
    case False
    then show ?thesis
      by (simp add: finish_batch_def publish_def Let_def log_line_def w_def)
  next
    case True
    with u w1 show ?thesis
      unfolding finish_batch_def Let_def completed_updates_job w_def[symmetric]
      by (cases r) (simp_all add: publish_def log_line_def)
  qed
qed


text \<open>The durable job that the route creates for the example batch.\<close>

lemma example_submitted_jobs:
  "t_batch_jobs (store (svc (example_submitted None files))) =
     (if files = [] then []
      else [new_batch_job_row (example_uuid 1) ''job-1'' (length files) 1700000000])"
  by (simp add: example_submitted_def extract_batch_def createBatchJob_def pool_connect_def fails_def
                tick_def client_release_def example_server_def example_env_def empty_tables_def Let_def)


subsection \<open>A result that could not be stored\<close>

lemma process_file_storage_failure:
  assumes ex: "processPDF (f_path f) = Inr extracted"
      and sm: "storeManifest (svc (bs_server st))
                 (extracted\<lparr>processing_info := Some (processing_metadata (now (svc (bs_server st))) f extracted)\<rparr>)
                 (processing_metadata (now (svc (bs_server st))) f extracted) = (Inl e, w1)"
  shows "results (bs_job (process_file processPDF jobId True order f st)) =
           results (bs_job st) @
             [extracted\<lparr>processing_info := Some (processing_metadata (now (svc (bs_server st))) f extracted),
                        database_error := Some e\<rparr>]"
    and "store (svc (bs_server (process_file processPDF jobId True order f st))) = store (svc (bs_server st))"
proof -
  let ?w = "svc (bs_server st)"
  let ?info = "processing_metadata (now ?w) f extracted"
  have es: "extract_and_store processPDF ?w jobId True order f =
              (Inr (extracted\<lparr>processing_info := Some ?info, database_error := Some e\<rparr>),
               log_line Error ''Failed to store manifest in database:'' w1)"
    using ex store_and_link_failure[OF sm] by (simp add: extract_and_store_def Let_def)
  from storeManifest_effect[OF sm] have w1: "store w1 = store ?w" by simp
  show "results (bs_job (process_file processPDF jobId True order f st)) =
           results (bs_job st) @ [extracted\<lparr>processing_info := Some ?info, database_error := Some e\<rparr>]"
    unfolding process_file_def Let_def es publish_def by simp
  show "store (svc (bs_server (process_file processPDF jobId True order f st))) = store ?w"
    using w1 unlink_file_effect[of "(bs_server st)\<lparr>svc := log_line Error ''Failed to store manifest in database:'' w1\<rparr>" f]
    unfolding process_file_def Let_def es publish_def by (simp add: log_line_def)
qed

text \<open>
  C10. When the extraction of a file succeeds and \<open>storeManifest\<close> throws, the turn
  of the loop appends the extraction result, with its processing metadata and the
  error message in \<open>database_error\<close>, to the results of the job, adds nothing to its
  errors, counts the file as successful and not as failed, writes no row to
  \<open>batch_job_manifests\<close>, and the job is completed at the end of the batch.
\<close>

theorem storage_failure_is_a_result:
  assumes "processPDF (f_path f) = Inr extracted"
      and "storeManifest (svc (bs_server st))
             (extracted\<lparr>processing_info := Some (processing_metadata (now (svc (bs_server st))) f extracted)\<rparr>)
             (processing_metadata (now (svc (bs_server st))) f extracted) = (Inl e, w1)"
  shows "results (bs_job (process_file processPDF jobId True order f st)) =
           results (bs_job st) @
             [extracted\<lparr>processing_info := Some (processing_metadata (now (svc (bs_server st))) f extracted),
                        database_error := Some e\<rparr>] \<and>
         errors (bs_job (process_file processPDF jobId True order f st)) = errors (bs_job st) \<and>
         successfulFiles (process_file processPDF jobId True order f st) = successfulFiles st + 1 \<and>
         failedFiles (process_file processPDF jobId True order f st) = failedFiles st \<and>
         t_batch_job_manifests (store (svc (bs_server (process_file processPDF jobId True order f st))))
           = t_batch_job_manifests (store (svc (bs_server st))) \<and>
         status (bs_job (finish_batch jobId n True
                   (process_files processPDF jobId True (order + 1) rest
                      (process_file processPDF jobId True order f st)))) = ''completed''"
proof -
  have a: "results (bs_job (process_file processPDF jobId True order f st)) =
           results (bs_job st) @
             [extracted\<lparr>processing_info := Some (processing_metadata (now (svc (bs_server st))) f extracted),
                        database_error := Some e\<rparr>]"
     "store (svc (bs_server (process_file processPDF jobId True order f st))) = store (svc (bs_server st))"
    using assms
      process_file_storage_failure[where processPDF = processPDF and f = f and extracted = extracted
        and st = st and e = e and ?w1.0 = w1 and jobId = jobId and order = order]
    by simp_all
  have b: "(\<exists>x. results (bs_job (process_file processPDF jobId True order f st)) = results (bs_job st) @ [x]) \<and>
           errors (bs_job (process_file processPDF jobId True order f st)) = errors (bs_job st) \<and>
           successfulFiles (process_file processPDF jobId True order f st) = successfulFiles st + 1 \<and>
           failedFiles (process_file processPDF jobId True order f st) = failedFiles st"
    using assms(1)
      process_file_effect(7)[where processPDF = processPDF and fl = f and extracted = extracted
           and jobId = jobId and storeInDb = True and order = order and st = st]
    by simp
  have c: "status (bs_job (finish_batch jobId n True
                   (process_files processPDF jobId True (order + 1) rest
                      (process_file processPDF jobId True order f st)))) = ''completed''"
    by (simp add: finish_batch_effect(1))
  from a b c show ?thesis by simp
qed

text \<open>A batch whose INSERT of the manifest fails (the driver call with index 2).\<close>

theorem storage_failure_is_a_result_witness:
  "map database_error (results (bs_job (process_file example_extractor ''job-1'' True 0 (example_file ''a'')
      (start_of_loop (example_server (Some 2)) 1)))) = [Some ''connection lost''] \<and>
   errors (bs_job (process_file example_extractor ''job-1'' True 0 (example_file ''a'')
      (start_of_loop (example_server (Some 2)) 1))) = [] \<and>
   successfulFiles (process_file example_extractor ''job-1'' True 0 (example_file ''a'')
      (start_of_loop (example_server (Some 2)) 1)) = 1 \<and>
   failedFiles (process_file example_extractor ''job-1'' True 0 (example_file ''a'')
      (start_of_loop (example_server (Some 2)) 1)) = 0 \<and>
   t_batch_job_manifests (store (svc (bs_server (process_file example_extractor ''job-1'' True 0
      (example_file ''a'') (start_of_loop (example_server (Some 2)) 1))))) = [] \<and>
   status (bs_job (finish_batch ''job-1'' 1 True (process_file example_extractor ''job-1'' True 0
      (example_file ''a'') (start_of_loop (example_server (Some 2)) 1)))) = ''completed''"
proof -
  let ?st = "start_of_loop (example_server (Some 2)) 1"
  let ?m = "example_manifest (JStr ''15/01/2024'') two_deliveries"
  let ?info = "processing_metadata (now (svc (bs_server ?st))) (example_file ''a'') ?m"
  let ?run = "storeManifest (svc (bs_server ?st)) (?m\<lparr>processing_info := Some ?info\<rparr>) ?info"
  have ex: "example_extractor (f_path (example_file ''a'')) = Inr ?m"
    by (simp add: example_extractor_def example_file_def)
  have "fst ?run = Inl ''connection lost''"
    by (simp add: run_storeManifest start_of_loop_def example_server_def example_env_def
                  example_manifest_def two_deliveries_def empty_tables_def)
  then have sm: "?run = (Inl ''connection lost'', snd ?run)"
    by (metis prod.collapse)
  have init: "results (bs_job ?st) = []" "errors (bs_job ?st) = []" "successfulFiles ?st = 0"
    "failedFiles ?st = 0" "t_batch_job_manifests (store (svc (bs_server ?st))) = []"
    by (simp_all add: start_of_loop_def new_job_def example_server_def example_env_def empty_tables_def)
  from ex sm
    storage_failure_is_a_result[where processPDF = example_extractor and f = "example_file ''a''"
      and extracted = ?m and st = ?st and e = "''connection lost''" and ?w1.0 = "snd ?run"
      and jobId = "''job-1''" and order = 0 and n = 1 and rest = "[]"]
  show ?thesis
    unfolding init by simp
qed


subsection \<open>A batch with one failed extraction\<close>

lemma process_files_effect:
  "same_env (svc (bs_server st)) (svc (bs_server (process_files processPDF jobId storeInDb order files st))) \<and>
   t_batch_jobs (store (svc (bs_server (process_files processPDF jobId storeInDb order files st))))
     = t_batch_jobs (store (svc (bs_server st)))"
proof (induction files arbitrary: order st)
  case Nil
  then show ?case by (simp add: same_env_def)
next
  case (Cons f files)
  from Cons.IH[where order = "order + 1" and st = "process_file processPDF jobId storeInDb order f st"]
       process_file_effect(1,2)[where processPDF = processPDF and jobId = jobId and storeInDb = storeInDb
         and order = order and fl = f and st = st]
  show ?case by (simp add: same_env_def)
qed

lemma apply_completed_updates:
  "bj_job_id (apply_updates ts (completed_updates n st) row) = bj_job_id row"
  "bj_status (apply_updates ts (completed_updates n st) row) = ''completed''"
  "bj_processed_files (apply_updates ts (completed_updates n st) row) = n"
  "bj_successful_files (apply_updates ts (completed_updates n st) row) = successfulFiles st"
  "bj_failed_files (apply_updates ts (completed_updates n st) row) = failedFiles st"
  "bj_results (apply_updates ts (completed_updates n st) row) = results (bs_job st)"
  "bj_errors (apply_updates ts (completed_updates n st) row) = errors (bs_job st)"
  by (simp_all add: apply_updates_def completed_updates_def Let_def)

lemma finish_batch_job_ids:
  "map bj_job_id (t_batch_jobs (store (svc (bs_server (finish_batch jobId n storeInDb st)))))
     = map bj_job_id (t_batch_jobs (store (svc (bs_server st))))"
  unfolding finish_batch_effect(3)
  by (simp add: apply_completed_updates(1) comp_def cong: if_cong)

text \<open>The job ids of the durable jobs are the same before and after a batch.\<close>

lemma batch_keeps_job_ids:
  assumes "batchJobs s jobId = Some job"
  shows "map bj_job_id (t_batch_jobs (store (svc (snd (processBatchInBackground processPDF s jobId files storeInDb)))))
           = map bj_job_id (t_batch_jobs (store (svc s)))"
  using assms
    process_files_effect[where st = "\<lparr>bs_job = job, successfulFiles = 0, failedFiles = 0, bs_server = s\<rparr>"
      and processPDF = processPDF and jobId = jobId and storeInDb = storeInDb and order = 0 and files = files]
  by (simp add: processBatchInBackground_def finish_batch_job_ids)


text \<open>
  C2. A batch of three files of a newly registered job, where the extraction of the
  second file throws and the other two succeed: the loop ends with two successful
  files and one failed file; the task returns normally; the job in the registry is
  \<open>completed\<close> with three processed files, two results and one error, which names
  the second file and carries the message of its extraction error. When the batch is
  stored and no driver call throws, every durable job of this id is \<open>completed\<close>
  with \<open>processed_files = 3\<close>, \<open>successful_files = 2\<close>, \<open>failed_files = 1\<close>,
  two results and the one error.
\<close>

theorem one_failed_extraction_of_three:
  assumes job: "batchJobs s jobId = Some job"
      and fresh: "processed_files job = 0" "results job = []" "errors job = []"
      and e1: "processPDF (f_path f1) = Inr x1"
      and e2: "processPDF (f_path f2) = Inl message"
      and e3: "processPDF (f_path f3) = Inr x3"
  shows "successfulFiles (process_files processPDF jobId storeInDb 0 [f1, f2, f3]
           \<lparr>bs_job = job, successfulFiles = 0, failedFiles = 0, bs_server = s\<rparr>) = 2 \<and>
         failedFiles (process_files processPDF jobId storeInDb 0 [f1, f2, f3]
           \<lparr>bs_job = job, successfulFiles = 0, failedFiles = 0, bs_server = s\<rparr>) = 1 \<and>
         fst (processBatchInBackground processPDF s jobId [f1, f2, f3] storeInDb) = Inr () \<and>
         (\<exists>finished.
            batchJobs (snd (processBatchInBackground processPDF s jobId [f1, f2, f3] storeInDb)) jobId
              = Some finished \<and>
            status finished = ''completed'' \<and> processed_files finished = 3 \<and>
            length (results finished) = 2 \<and>
            map err_filename (errors finished) = [originalname f2] \<and>
            map err_error (errors finished) = [message]) \<and>
         (storeInDb \<and> fault (svc s) = (\<lambda>_. None) \<longrightarrow>
            (\<forall>row \<in> set (t_batch_jobs (store (svc (snd
                  (processBatchInBackground processPDF s jobId [f1, f2, f3] storeInDb))))).
               bj_job_id row = jobId \<longrightarrow>
                 bj_status row = ''completed'' \<and> bj_processed_files row = 3 \<and>
                 bj_successful_files row = 2 \<and> bj_failed_files row = 1 \<and>
                 length (bj_results row) = 2 \<and>
                 map err_filename (bj_errors row) = [originalname f2]))"
proof -
  define st0 where "st0 = \<lparr>bs_job = job, successfulFiles = 0, failedFiles = 0, bs_server = s\<rparr>"
  define st1 where "st1 = process_file processPDF jobId storeInDb 0 f1 st0"
  define st2 where "st2 = process_file processPDF jobId storeInDb (0 + 1) f2 st1"
  define st3 where "st3 = process_file processPDF jobId storeInDb (0 + 1 + 1) f3 st2"
  define n where "n = length [f1, f2, f3]"
  define fin where "fin = finish_batch jobId n storeInDb st3"
  have n3: "n = 3" by (simp add: n_def)
  have loop: "process_files processPDF jobId storeInDb 0 [f1, f2, f3] st0 = st3"
    by (simp only: process_files.simps st1_def st2_def st3_def)
  have run: "processBatchInBackground processPDF s jobId [f1, f2, f3] storeInDb = (Inr (), bs_server fin)"
    using job loop by (simp only: processBatchInBackground_def fin_def st0_def n_def option.case)
  have init: "processed_files (bs_job st0) = 0" "results (bs_job st0) = []" "errors (bs_job st0) = []"
    "successfulFiles st0 = 0" "failedFiles st0 = 0" "svc (bs_server st0) = svc s"
    using fresh by (simp_all add: st0_def)
  have p1: "processed_files (bs_job st1) = 1"
    using process_file_effect(4)[of processPDF jobId storeInDb 0 f1 st0] init
    by (simp add: st1_def)
  have r1: "(\<exists>x. results (bs_job st1) = [x]) \<and> errors (bs_job st1) = [] \<and>
            successfulFiles st1 = 1 \<and> failedFiles st1 = 0"
    using e1 init
      process_file_effect(7)[where processPDF = processPDF and fl = f1 and extracted = x1
        and jobId = jobId and storeInDb = storeInDb and order = 0 and st = st0]
    by (simp add: st1_def)
  have p2: "processed_files (bs_job st2) = 2"
    using process_file_effect(4)[of processPDF jobId storeInDb "0 + 1" f2 st1] p1
    by (simp add: st2_def)
  have r2: "(\<exists>x. results (bs_job st2) = [x]) \<and>
            errors (bs_job st2) = [\<lparr>err_filename = originalname f2, err_error = message,
                                    err_timestamp = now (svc (bs_server st1))\<rparr>] \<and>
            successfulFiles st2 = 1 \<and> failedFiles st2 = 1"
    using e2 r1
      process_file_effect(6)[where processPDF = processPDF and fl = f2 and message = message
        and jobId = jobId and storeInDb = storeInDb and order = "0 + 1" and st = st1]
    by (simp add: st2_def)
  have p3: "processed_files (bs_job st3) = 3"
    using process_file_effect(4)[of processPDF jobId storeInDb "0 + 1 + 1" f3 st2] p2
    by (simp add: st3_def)
  have r3: "length (results (bs_job st3)) = 2 \<and>
            errors (bs_job st3) = [\<lparr>err_filename = originalname f2, err_error = message,
                                    err_timestamp = now (svc (bs_server st1))\<rparr>] \<and>
            successfulFiles st3 = 2 \<and> failedFiles st3 = 1"
    using e3 r2
      process_file_effect(7)[where processPDF = processPDF and fl = f3 and extracted = x3
        and jobId = jobId and storeInDb = storeInDb and order = "0 + 1 + 1" and st = st2]
    by (auto simp: st3_def)
  have finjob: "bs_job fin = (bs_job st3)\<lparr>status := ''completed'',
                                           completed_at := Some (now (svc (bs_server st3)))\<rparr>"
    and registry: "batchJobs (bs_server fin) jobId = Some (bs_job fin)"
    using finish_batch_effect(1,2)[of jobId n storeInDb st3]
    by (simp_all add: fin_def)
  have memory: "\<exists>finished.
            batchJobs (bs_server fin) jobId = Some finished \<and>
            status finished = ''completed'' \<and> processed_files finished = 3 \<and>
            length (results finished) = 2 \<and>
            map err_filename (errors finished) = [originalname f2] \<and>
            map err_error (errors finished) = [message]"
    using registry finjob p3 r3 by simp
  have durable: "\<forall>row \<in> set (t_batch_jobs (store (svc (bs_server fin)))).
               bj_job_id row = jobId \<longrightarrow>
                 bj_status row = ''completed'' \<and> bj_processed_files row = 3 \<and>
                 bj_successful_files row = 2 \<and> bj_failed_files row = 1 \<and>
                 length (bj_results row) = 2 \<and>
                 map err_filename (bj_errors row) = [originalname f2]"
    if db: "storeInDb" and nofault: "fault (svc s) = (\<lambda>_. None)"
  proof -
    from process_files_effect[where st = st0 and processPDF = processPDF and jobId = jobId
           and storeInDb = storeInDb and order = 0 and files = "[f1, f2, f3]"] loop init(6)
    have "fault (svc (bs_server st3)) = fault (svc s)" by (simp add: same_env_def)
    with nofault have nf: "fault (svc (bs_server st3)) (calls (svc (bs_server st3))) = None"
      "fault (svc (bs_server st3)) (Suc (calls (svc (bs_server st3)))) = None"
      by simp_all
    have tbl: "t_batch_jobs (store (svc (bs_server fin))) =
        map (\<lambda>row. if bj_job_id row = jobId
                    then apply_updates (now (svc (bs_server st3))) (completed_updates n st3) row
                    else row)
            (t_batch_jobs (store (svc (bs_server st3))))"
      unfolding fin_def finish_batch_effect(3) using db nf by (simp only: if_True simp_thms)
    show ?thesis
    proof (intro ballI impI)
      fix row
      assume mem: "row \<in> set (t_batch_jobs (store (svc (bs_server fin))))" and id: "bj_job_id row = jobId"
      from mem[unfolded tbl set_map] obtain row0 where
        row: "row = (if bj_job_id row0 = jobId
                    then apply_updates (now (svc (bs_server st3))) (completed_updates n st3) row0
                    else row0)"
        by blast
      with id have "bj_job_id row0 = jobId"
        by (cases "bj_job_id row0 = jobId") simp_all
      with row have "row = apply_updates (now (svc (bs_server st3))) (completed_updates n st3) row0"
        by simp
      then show "bj_status row = ''completed'' \<and> bj_processed_files row = 3 \<and>
                 bj_successful_files row = 2 \<and> bj_failed_files row = 1 \<and>
                 length (bj_results row) = 2 \<and>
                 map err_filename (bj_errors row) = [originalname f2]"
        using r3 n3 by (simp add: apply_completed_updates)
    qed
  qed
  have loop': "process_files processPDF jobId storeInDb 0 [f1, f2, f3]
           \<lparr>bs_job = job, successfulFiles = 0, failedFiles = 0, bs_server = s\<rparr> = st3"
    using loop by (simp only: st0_def)
  have c1: "successfulFiles (process_files processPDF jobId storeInDb 0 [f1, f2, f3]
           \<lparr>bs_job = job, successfulFiles = 0, failedFiles = 0, bs_server = s\<rparr>) = 2"
   and c2: "failedFiles (process_files processPDF jobId storeInDb 0 [f1, f2, f3]
           \<lparr>bs_job = job, successfulFiles = 0, failedFiles = 0, bs_server = s\<rparr>) = 1"
    unfolding loop' using r3 by simp_all
  have c3: "fst (processBatchInBackground processPDF s jobId [f1, f2, f3] storeInDb) = Inr ()"
    unfolding run by simp
  have c4: "\<exists>finished.
            batchJobs (snd (processBatchInBackground processPDF s jobId [f1, f2, f3] storeInDb)) jobId
              = Some finished \<and>
            status finished = ''completed'' \<and> processed_files finished = 3 \<and>
            length (results finished) = 2 \<and>
            map err_filename (errors finished) = [originalname f2] \<and>
            map err_error (errors finished) = [message]"
    unfolding run snd_conv by (rule memory)
  have c5: "storeInDb \<and> fault (svc s) = (\<lambda>_. None) \<longrightarrow>
            (\<forall>row \<in> set (t_batch_jobs (store (svc (snd
                  (processBatchInBackground processPDF s jobId [f1, f2, f3] storeInDb))))).
               bj_job_id row = jobId \<longrightarrow>
                 bj_status row = ''completed'' \<and> bj_processed_files row = 3 \<and>
                 bj_successful_files row = 2 \<and> bj_failed_files row = 1 \<and>
                 length (bj_results row) = 2 \<and>
                 map err_filename (bj_errors row) = [originalname f2])"
    unfolding run snd_conv
  proof (intro impI)
    assume "storeInDb \<and> fault (svc s) = (\<lambda>_. None)"
    then have "storeInDb" and "fault (svc s) = (\<lambda>_. None)" by simp_all
    then show "\<forall>row \<in> set (t_batch_jobs (store (svc (bs_server fin)))).
               bj_job_id row = jobId \<longrightarrow>
                 bj_status row = ''completed'' \<and> bj_processed_files row = 3 \<and>
                 bj_successful_files row = 2 \<and> bj_failed_files row = 1 \<and>
                 length (bj_results row) = 2 \<and>
                 map err_filename (bj_errors row) = [originalname f2]"
      by (rule durable)
  qed
  from c1 c2 c3 c4 c5 show ?thesis by (intro conjI)
qed


text \<open>The example batch of three files, of which the extractor rejects the second.\<close>

theorem one_failed_extraction_of_three_witness:
  "fst (processBatchInBackground example_extractor
          (example_submitted None [example_file ''a'', example_file ''b'', example_file ''c''])
          ''job-1'' [example_file ''a'', example_file ''b'', example_file ''c''] True) = Inr () \<and>
   (case batchJobs (snd (processBatchInBackground example_extractor
          (example_submitted None [example_file ''a'', example_file ''b'', example_file ''c''])
          ''job-1'' [example_file ''a'', example_file ''b'', example_file ''c''] True)) ''job-1'' of
      None \<Rightarrow> False
    | Some finished \<Rightarrow>
        status finished = ''completed'' \<and> processed_files finished = 3 \<and>
        length (results finished) = 2 \<and> map err_filename (errors finished) = [''b.pdf'']) \<and>
   map (\<lambda>row. (bj_status row, bj_processed_files row, bj_successful_files row, bj_failed_files row))
       (t_batch_jobs (store (svc (snd (processBatchInBackground example_extractor
          (example_submitted None [example_file ''a'', example_file ''b'', example_file ''c''])
          ''job-1'' [example_file ''a'', example_file ''b'', example_file ''c''] True)))))
     = [(''completed'', 3, 2, 1)]"
proof -
  let ?files = "[example_file ''a'', example_file ''b'', example_file ''c'']"
  let ?s = "example_submitted None ?files"
  let ?run = "processBatchInBackground example_extractor ?s ''job-1'' ?files True"
  have job: "batchJobs ?s ''job-1'' = Some (new_job 3 True 1700000000)"
    by (simp add: example_submitted_def extract_batch_def createBatchJob_def pool_connect_def fails_def
                  tick_def client_release_def example_server_def example_env_def empty_tables_def Let_def
                  numeral_3_eq_3)
  have fresh: "processed_files (new_job 3 True 1700000000) = 0" "results (new_job 3 True 1700000000) = []"
    "errors (new_job 3 True 1700000000) = []"
    by (simp_all add: new_job_def)
  have ex: "example_extractor (f_path (example_file ''a'')) = Inr (example_manifest (JStr ''15/01/2024'') two_deliveries)"
    "example_extractor (f_path (example_file ''b'')) = Inl ''not a manifest''"
    "example_extractor (f_path (example_file ''c'')) = Inr (example_manifest (JStr ''15/01/2024'') two_deliveries)"
    by (simp_all add: example_extractor_def example_file_def)
  have nofault: "fault (svc ?s) = (\<lambda>_. None)"
    by (simp add: example_submitted_def extract_batch_def createBatchJob_def pool_connect_def fails_def
                  tick_def client_release_def example_server_def example_env_def empty_tables_def Let_def)
  have ids: "map bj_job_id (t_batch_jobs (store (svc (snd ?run)))) = [''job-1'']"
    unfolding batch_keeps_job_ids[OF job] by (simp add: example_submitted_jobs new_batch_job_row_def)
  then obtain row where rows: "t_batch_jobs (store (svc (snd ?run))) = [row]" and rid: "bj_job_id row = ''job-1''"
    by (cases "t_batch_jobs (store (svc (snd ?run)))") auto
  have name: "originalname (example_file ''b'') = ''b.pdf''"
    by (simp add: example_file_def)
  from job fresh ex nofault
    one_failed_extraction_of_three[where processPDF = example_extractor and s = ?s and jobId = "''job-1''"
      and job = "new_job 3 True 1700000000" and ?f1.0 = "example_file ''a''" and ?f2.0 = "example_file ''b''"
      and ?f3.0 = "example_file ''c''" and ?x1.0 = "example_manifest (JStr ''15/01/2024'') two_deliveries"
      and ?x3.0 = "example_manifest (JStr ''15/01/2024'') two_deliveries" and message = "''not a manifest''"
      and storeInDb = True]
  show ?thesis
    unfolding rows name using rid by auto
qed



end
